theory Spec2Isabelle
  imports Complex_Main "HOL-Library.Word"
begin

section \<open>Values shared by both builds of the index wrapper\<close>

text \<open>
  The C++ sources use \<^verbatim>\<open>float\<close> for vector components and distances, \<^verbatim>\<open>int64_t\<close> for
  identifiers and labels, \<^verbatim>\<open>size_t\<close> for counts and \<^verbatim>\<open>std::vector<uint8_t>\<close> for
  serialized indexes. Components and distances are idealised here as rationals (every
  finite float is one); no arithmetic is done on identifiers or counts that could
  overflow, so they are \<open>int\<close> and \<open>nat\<close>. A pointer argument is an \<open>option\<close>: \<open>None\<close> is
  the null pointer, \<open>Some xs\<close> the buffer it points to.
\<close>

type_synonym cfloat = rat
type_synonym idx_t = int
type_synonym byte = "8 word"

text \<open>\<^verbatim>\<open>struct SearchResult { int64_t id; float distance; }\<close> (faiss_wrapper.h).\<close>

record SearchResult =
  id' :: idx_t
  distance :: cfloat

section \<open>The FAISS library as a parameter\<close>

text \<open>
  The wrapper of \<^verbatim>\<open>faiss_wrapper.cpp\<close> drives a \<^verbatim>\<open>faiss::Index\<close>. The library is not part
  of the repository, so it enters the model as a parameter: a record of the operations
  the wrapper calls, over an arbitrary type \<open>'i\<close> of index objects. Which concrete index
  class the wrapper constructs, and with which arguments, is a value of \<open>faiss_ctor\<close>.
  \<open>IndexHNSWFlat d M efc\<close> stands for \<^verbatim>\<open>new IndexHNSWFlat(d, M)\<close> followed by the
  assignment \<^verbatim>\<open>hnsw.efConstruction = efc\<close>.
\<close>

datatype faiss_ctor =
    IndexFlatL2 int
  | IndexIVFFlat faiss_ctor int int
  | IndexHNSWFlat int int int
  | GpuIndexFlat int
  | GpuIndexIVFFlat int int

datatype 'a outcome = Returned 'a | Threw string

text \<open>
  A mutating library call yields the index as the call left it together with the
  message of the \<^verbatim>\<open>std::exception\<close> it threw, if any; nothing is assumed about what a
  throwing call leaves behind.
\<close>

record 'i faiss =
  new_index :: "faiss_ctor \<Rightarrow> 'i"
  index_is_trained :: "'i \<Rightarrow> bool"
  index_ntotal :: "'i \<Rightarrow> nat"
  index_train :: "'i \<Rightarrow> nat \<Rightarrow> cfloat list \<Rightarrow> 'i \<times> string option"
  index_add :: "'i \<Rightarrow> nat \<Rightarrow> cfloat list \<Rightarrow> 'i \<times> string option"
  index_add_with_ids :: "'i \<Rightarrow> nat \<Rightarrow> cfloat list \<Rightarrow> idx_t list \<Rightarrow> 'i \<times> string option"
  index_search :: "'i \<Rightarrow> nat \<Rightarrow> cfloat list \<Rightarrow> nat \<Rightarrow> (cfloat list \<times> idx_t list) outcome"
  write_index :: "'i \<Rightarrow> byte list outcome"
  read_index :: "byte list \<Rightarrow> 'i option outcome"

text \<open>
  The calls that change or train the library index, in the order the wrapper makes
  them. The wrapper state below carries this history so that statements such as
  ``training ran once, before the insertion'' can be made about it; it has no
  counterpart among the C++ members and no operation reads it.
\<close>

datatype lib_call =
    Train nat "cfloat list"
  | Add nat "cfloat list"
  | AddWithIds nat "cfloat list" "idx_t list"

section \<open>The FAISS-backed wrapper (faiss\_wrapper.cpp)\<close>

text \<open>
  The members of the class, each with a prime appended (a name may not end in an
  underscore here), and the call history \<open>lib_calls\<close>.
\<close>

record 'i FAISSWrapper =
  index_' :: "'i option"
  dimension_' :: int
  use_gpu_' :: bool
  gpu_device_' :: int
  index_type_' :: string
  trained_' :: bool
  lib_calls :: "lib_call list"

text \<open>
  \<^verbatim>\<open>int ncentroids = std::min(4 * (int)sqrt(100000), 65536);\<close> The square root is taken
  in \<^verbatim>\<open>double\<close> and the cast truncates; the exact root is far enough from an integer
  for the rounding of \<^verbatim>\<open>sqrt\<close> not to matter, so the truncation is the floor of the real
  square root.
\<close>

definition ncentroids :: int where
  "ncentroids = min (4 * \<lfloor>sqrt (100000 :: real)\<rfloor>) 65536"

text \<open>
  \<^verbatim>\<open>create_index\<close>, with the conditional compilation \<^verbatim>\<open>#ifdef WITH_GPU\<close> as the
  boolean \<open>with_gpu\<close> and the member \<^verbatim>\<open>use_gpu_\<close> as \<open>use_gpu\<close>.
\<close>

definition create_index :: "bool \<Rightarrow> bool \<Rightarrow> string \<Rightarrow> int \<Rightarrow> faiss_ctor" where
  "create_index with_gpu use_gpu index_type dimension =
     (if index_type = ''Flat'' then
        (if with_gpu \<and> use_gpu then GpuIndexFlat dimension else IndexFlatL2 dimension)
      else if index_type = ''IVFFlat'' then
        (let quantizer = IndexFlatL2 dimension in
         if with_gpu \<and> use_gpu then GpuIndexIVFFlat dimension ncentroids
         else IndexIVFFlat quantizer dimension ncentroids)
      else if index_type = ''HNSW'' then
        (let M = 16 in IndexHNSWFlat dimension M 40)
      else IndexFlatL2 dimension)"

text \<open>
  \<^verbatim>\<open>GPUImpl::create_gpu_index\<close> of the CUDA translation unit. \<open>gpu_resources\<close> says
  whether the resource object was set up, \<open>ctor_ok\<close> whether a library constructor
  returns (otherwise it throws, which the function catches to return \<^verbatim>\<open>nullptr\<close>).
\<close>

definition create_gpu_index :: "(faiss_ctor \<Rightarrow> bool) \<Rightarrow> bool \<Rightarrow> string \<Rightarrow> int \<Rightarrow> faiss_ctor option" where
  "create_gpu_index ctor_ok gpu_resources index_type dimension =
     (if \<not> gpu_resources then None
      else if index_type = ''Flat'' then
        (if ctor_ok (GpuIndexFlat dimension) then Some (GpuIndexFlat dimension) else None)
      else if index_type = ''IVFFlat'' then
        (if ctor_ok (GpuIndexIVFFlat dimension ncentroids)
         then Some (GpuIndexIVFFlat dimension ncentroids) else None)
      else None)"

text \<open>The number of inverted lists an index was constructed with, if it has any.\<close>

fun nlist :: "faiss_ctor \<Rightarrow> int option" where
  "nlist (IndexIVFFlat q d n) = Some n"
| "nlist (GpuIndexIVFFlat d n) = Some n"
| "nlist _ = None"

text \<open>
  The constructor. Without \<^verbatim>\<open>WITH_GPU\<close> a request for the GPU is dropped with a
  warning; with it, \<^verbatim>\<open>setup_gpu_resources\<close> drops the request when the device number
  is not below \<^verbatim>\<open>getNumDevices()\<close>. The member \<^verbatim>\<open>trained_\<close> starts \<^verbatim>\<open>false\<close>.
\<close>

definition setup_gpu_resources :: "int \<Rightarrow> bool \<Rightarrow> int \<Rightarrow> bool" where
  "setup_gpu_resources getNumDevices use_gpu gpu_device =
     (if getNumDevices \<le> gpu_device then False else use_gpu)"

definition FAISSWrapper_init ::
  "'i faiss \<Rightarrow> bool \<Rightarrow> int \<Rightarrow> int \<Rightarrow> string \<Rightarrow> bool \<Rightarrow> int \<Rightarrow> 'i FAISSWrapper" where
  "FAISSWrapper_init L with_gpu getNumDevices dimension index_type use_gpu gpu_device =
     (let use_gpu' =
            (if with_gpu
             then (if use_gpu then setup_gpu_resources getNumDevices use_gpu gpu_device
                   else use_gpu)
             else False)
      in \<lparr> index_' = Some (new_index L (create_index with_gpu use_gpu' index_type dimension)),
           dimension_' = dimension, use_gpu_' = use_gpu', gpu_device_' = gpu_device,
           index_type_' = index_type, trained_' = False, lib_calls = [] \<rparr>)"

text \<open>\<^verbatim>\<open>return index_ && (index_->is_trained || trained_);\<close>\<close>

definition is_trained :: "'i faiss \<Rightarrow> 'i FAISSWrapper \<Rightarrow> bool" where
  "is_trained L w =
     (case index_' w of None \<Rightarrow> False | Some ix \<Rightarrow> index_is_trained L ix \<or> trained_' w)"

text \<open>
  \<^verbatim>\<open>train\<close>: nothing happens without an index, without data or for a count of zero.
  Otherwise the library trains on \<^verbatim>\<open>min(count, 100000)\<close> vectors unless its own flag
  says it is trained already, and \<^verbatim>\<open>trained_\<close> is set; an exception of the library is
  caught and logged, and then \<^verbatim>\<open>trained_\<close> is not set.
\<close>

definition train :: "'i faiss \<Rightarrow> 'i FAISSWrapper \<Rightarrow> cfloat list option \<Rightarrow> nat \<Rightarrow> 'i FAISSWrapper" where
  "train L w training_data count =
     (case index_' w of
        None \<Rightarrow> w
      | Some ix \<Rightarrow>
          (case training_data of
             None \<Rightarrow> w
           | Some td \<Rightarrow>
               if count = 0 then w
               else if \<not> index_is_trained L ix then
                 (let training_size = min count 100000 in
                  case index_train L ix training_size td of
                    (ix', None) \<Rightarrow>
                      w\<lparr> index_' := Some ix', trained_' := True,
                         lib_calls := lib_calls w @ [Train training_size td] \<rparr>
                  | (ix', Some e) \<Rightarrow>
                      w\<lparr> index_' := Some ix',
                         lib_calls := lib_calls w @ [Train training_size td] \<rparr>)
               else w\<lparr> trained_' := True \<rparr>))"

text \<open>
  \<^verbatim>\<open>add_vectors\<close> returns the status and the wrapper as the call leaves it: \<open>-1\<close> for a
  missing index, a null \<^verbatim>\<open>vectors\<close> or a zero count, \<open>-2\<close> when the library throws,
  \<open>0\<close> otherwise. The \<open>None\<close> branch after the training step cannot be taken (\<open>train\<close>
  never clears \<^verbatim>\<open>index_\<close>); it is there because the pointer is tested only once in
  the source.
\<close>

definition add_vectors ::
  "'i faiss \<Rightarrow> 'i FAISSWrapper \<Rightarrow> cfloat list option \<Rightarrow> idx_t list option \<Rightarrow> nat
     \<Rightarrow> int \<times> 'i FAISSWrapper" where
  "add_vectors L w vectors ids count =
     (case index_' w of
        None \<Rightarrow> (- 1, w)
      | Some ix0 \<Rightarrow>
          (case vectors of
             None \<Rightarrow> (- 1, w)
           | Some vs \<Rightarrow>
               if count = 0 then (- 1, w)
               else
                 (let w1 = (if \<not> is_trained L w \<and> index_type_' w = ''IVFFlat''
                            then train L w vectors count else w)
                  in case index_' w1 of
                       None \<Rightarrow> (- 1, w1)
                     | Some ix1 \<Rightarrow>
                         (case ids of
                            Some is \<Rightarrow>
                              (case index_add_with_ids L ix1 count vs is of
                                 (ix2, None) \<Rightarrow>
                                   (0, w1\<lparr> index_' := Some ix2,
                                           lib_calls := lib_calls w1 @ [AddWithIds count vs is] \<rparr>)
                               | (ix2, Some e) \<Rightarrow>
                                   (- 2, w1\<lparr> index_' := Some ix2,
                                             lib_calls := lib_calls w1 @ [AddWithIds count vs is] \<rparr>))
                          | None \<Rightarrow>
                              (case index_add L ix1 count vs of
                                 (ix2, None) \<Rightarrow>
                                   (0, w1\<lparr> index_' := Some ix2,
                                           lib_calls := lib_calls w1 @ [Add count vs] \<rparr>)
                               | (ix2, Some e) \<Rightarrow>
                                   (- 2, w1\<lparr> index_' := Some ix2,
                                             lib_calls := lib_calls w1 @ [Add count vs] \<rparr>))))))"

text \<open>
  \<^verbatim>\<open>search\<close>, with the wrapper as the call leaves it. Inside its \<^verbatim>\<open>try\<close> block the
  method creates two buffers of \<open>k\<close> value-initialised (zero) entries, hands them to
  the library, reserves \<open>k\<close> results and reads the buffers back by position, skipping
  the entries with a negative label. \<open>buf\<close> reads position \<open>i\<close> of what the library
  wrote, a position it did not write still holding zero. \<open>can_allocate k\<close> says
  whether vectors of \<open>k\<close> entries can be created: if not, \<^verbatim>\<open>std::length_error\<close> or
  \<^verbatim>\<open>std::bad_alloc\<close> is thrown and caught like an exception of the library (for the
  buffers before the library is called, for the results after it; the library's
  search changes nothing, so both give the same outcome). The return type
  \<^verbatim>\<open>std::vector<SearchResult>\<close> carries no status: a missing index, a null query,
  \<open>k = 0\<close> and every caught exception give the empty vector. No branch assigns a
  member or calls \<^verbatim>\<open>train\<close>.
\<close>

definition buf :: "'a::zero list \<Rightarrow> nat \<Rightarrow> 'a" where
  "buf xs i = (if i < length xs then xs ! i else 0)"

definition search ::
  "(nat \<Rightarrow> bool) \<Rightarrow> 'i faiss \<Rightarrow> 'i FAISSWrapper \<Rightarrow> cfloat list option \<Rightarrow> nat
     \<Rightarrow> SearchResult list \<times> 'i FAISSWrapper" where
  "search can_allocate L w query k =
     (case index_' w of
        None \<Rightarrow> ([], w)
      | Some ix \<Rightarrow>
          (case query of
             None \<Rightarrow> ([], w)
           | Some q \<Rightarrow>
               if k = 0 then ([], w)
               else if \<not> can_allocate k then ([], w)
               else
                 (case index_search L ix 1 q k of
                    Threw e \<Rightarrow> ([], w)
                  | Returned (distances, labels) \<Rightarrow>
                      (map (\<lambda>i. \<lparr> id' = buf labels i, distance = buf distances i \<rparr>)
                           (filter (\<lambda>i. 0 \<le> buf labels i) [0..<k]),
                       w))))"

text \<open>
  \<^verbatim>\<open>serialize\<close>: the bytes \<^verbatim>\<open>faiss::write_index\<close> produced, or no bytes when there is
  no index or the library throws.
\<close>

definition serialize :: "'i faiss \<Rightarrow> 'i FAISSWrapper \<Rightarrow> byte list" where
  "serialize L w =
     (case index_' w of
        None \<Rightarrow> []
      | Some ix \<Rightarrow> (case write_index L ix of Returned str \<Rightarrow> str | Threw e \<Rightarrow> []))"

text \<open>
  \<^verbatim>\<open>deserialize\<close>: \<open>-1\<close> for an empty blob, \<open>-3\<close> when \<^verbatim>\<open>faiss::read_index\<close> throws,
  \<open>-2\<close> when it returns null; otherwise the loaded index replaces \<^verbatim>\<open>index_\<close>,
  \<^verbatim>\<open>trained_\<close> takes the loaded index's flag and the status is \<open>0\<close>.
\<close>

definition deserialize :: "'i faiss \<Rightarrow> 'i FAISSWrapper \<Rightarrow> byte list \<Rightarrow> int \<times> 'i FAISSWrapper" where
  "deserialize L w data =
     (if data = [] then (- 1, w)
      else
        (case read_index L data of
           Threw e \<Rightarrow> (- 3, w)
         | Returned None \<Rightarrow> (- 2, w)
         | Returned (Some loaded_index) \<Rightarrow>
             (0, w\<lparr> index_' := Some loaded_index,
                     trained_' := index_is_trained L loaded_index \<rparr>)))"

definition get_ntotal :: "'i faiss \<Rightarrow> 'i FAISSWrapper \<Rightarrow> nat" where
  "get_ntotal L w = (case index_' w of None \<Rightarrow> 0 | Some ix \<Rightarrow> index_ntotal L ix)"

definition get_dimension :: "'i FAISSWrapper \<Rightarrow> int" where
  "get_dimension w = dimension_' w"

text \<open>A sequence of \<^verbatim>\<open>add_vectors\<close> calls, each given as (vectors, ids, count).\<close>

fun add_all ::
  "'i faiss \<Rightarrow> 'i FAISSWrapper \<Rightarrow> (cfloat list option \<times> idx_t list option \<times> nat) list
     \<Rightarrow> 'i FAISSWrapper" where
  "add_all L w [] = w"
| "add_all L w ((vectors, ids, count) # rest) =
     add_all L (snd (add_vectors L w vectors ids count)) rest"

text \<open>How often the library's \<^verbatim>\<open>train\<close> was called on the way to a wrapper state.\<close>

definition train_count :: "'i FAISSWrapper \<Rightarrow> nat" where
  "train_count w = length (filter (\<lambda>c. case c of Train n td \<Rightarrow> True | _ \<Rightarrow> False) (lib_calls w))"

section \<open>The stub build (faiss\_stub.cpp)\<close>

text \<open>
  When FAISS is not installed the same class is compiled from \<^verbatim>\<open>faiss_stub.cpp\<close>:
  \<^verbatim>\<open>index_\<close> then always holds a \<^verbatim>\<open>FakeIndex\<close>. The members carry the suffix \<open>_s\<close> and
  the methods the suffix \<open>_stub\<close>, to keep them apart from the FAISS-backed ones; the
  fields of \<^verbatim>\<open>FakeIndex\<close> carry a prime.
\<close>

record FakeIndex =
  dimension' :: int
  vectors' :: "cfloat list list"
  ids' :: "idx_t list"

record StubWrapper =
  index_s :: FakeIndex
  dimension_s :: int
  use_gpu_s :: bool
  gpu_device_s :: int
  index_type_s :: string
  trained_s :: bool

definition FAISSWrapper_stub :: "int \<Rightarrow> string \<Rightarrow> bool \<Rightarrow> int \<Rightarrow> StubWrapper" where
  "FAISSWrapper_stub dimension index_type use_gpu gpu_device =
     \<lparr> index_s = \<lparr> dimension' = dimension, vectors' = [], ids' = [] \<rparr>,
       dimension_s = dimension, use_gpu_s = False, gpu_device_s = 0,
       index_type_s = index_type, trained_s = True \<rparr>"

text \<open>
  One round of the loop of \<^verbatim>\<open>add_vectors\<close>: it copies \<^verbatim>\<open>dimension_\<close> floats starting
  at \<^verbatim>\<open>vectors + i * dimension_\<close> and reads \<^verbatim>\<open>ids[i]\<close>. The source tests neither
  pointer nor any bound. A null \<^verbatim>\<open>ids\<close>, a negative dimension, a read past the end of
  a buffer and, for a dimension other than 0, a null \<^verbatim>\<open>vectors\<close> are undefined
  behaviour, which the model reports as \<open>None\<close>; with dimension 0 nothing is read
  through \<^verbatim>\<open>vectors\<close> and the empty vector is stored.
\<close>

definition add_step ::
  "int \<Rightarrow> cfloat list option \<Rightarrow> idx_t list option \<Rightarrow> nat \<Rightarrow> FakeIndex option \<Rightarrow> FakeIndex option" where
  "add_step dimension vectors_p ids_p i st =
     (case st of
        None \<Rightarrow> None
      | Some fake_idx \<Rightarrow>
          (case ids_p of
             None \<Rightarrow> None
           | Some is \<Rightarrow>
               if \<not> i < length is then None
               else if dimension = 0
               then Some (fake_idx\<lparr> vectors' := vectors' fake_idx @ [[]],
                                     ids' := ids' fake_idx @ [is ! i] \<rparr>)
               else
                 (case vectors_p of
                    None \<Rightarrow> None
                  | Some vs \<Rightarrow>
                      if 0 < dimension \<and> (i + 1) * nat dimension \<le> length vs
                      then Some (fake_idx\<lparr> vectors' := vectors' fake_idx
                                              @ [take (nat dimension) (drop (i * nat dimension) vs)],
                                            ids' := ids' fake_idx @ [is ! i] \<rparr>)
                      else None)))"

definition add_vectors_stub ::
  "StubWrapper \<Rightarrow> cfloat list option \<Rightarrow> idx_t list option \<Rightarrow> nat \<Rightarrow> (int \<times> StubWrapper) option" where
  "add_vectors_stub w vectors_p ids_p count =
     (case fold (add_step (dimension_s w) vectors_p ids_p) [0..<count] (Some (index_s w)) of
        None \<Rightarrow> None
      | Some fake_idx \<Rightarrow> Some (0, w\<lparr> index_s := fake_idx \<rparr>))"

text \<open>
  \<^verbatim>\<open>search\<close> of the stub ignores the query. It takes the first \<^verbatim>\<open>min(k, ids.size())\<close>
  stored identifiers, gives each a distance drawn from
  \<^verbatim>\<open>std::uniform_real_distribution<float>(0.1f, 10.0f)\<close> on a freshly seeded generator,
  and sorts by that distance. The generator is the parameter \<open>dis\<close>: \<open>dis i\<close> is the
  \<open>i\<close>-th value drawn in this call; \<open>in_distribution\<close> is the range the distribution
  draws from. The test \<^verbatim>\<open>if (i < fake_idx->ids.size())\<close> inside the loop is kept as the
  filter; it never fails, so the \<open>i\<close>-th round makes the \<open>i\<close>-th draw. \<^verbatim>\<open>std::sort\<close> with the comparison \<^verbatim>\<open>a.distance < b.distance\<close> is modelled
  by the insertion sort \<open>sort_key\<close>; it leaves entries of equal distance in their
  original order, which is one of the orders \<^verbatim>\<open>std::sort\<close> may produce.
\<close>

definition in_distribution :: "(nat \<Rightarrow> cfloat) \<Rightarrow> bool" where
  "in_distribution dis = (\<forall>i. 1 / 10 \<le> dis i \<and> dis i < 10)"

definition search_stub ::
  "(nat \<Rightarrow> cfloat) \<Rightarrow> StubWrapper \<Rightarrow> cfloat list option \<Rightarrow> nat \<Rightarrow> SearchResult list" where
  "search_stub dis w query k =
     (let fake_idx = index_s w;
          count = min k (length (ids' fake_idx));
          results = map (\<lambda>i. \<lparr> id' = ids' fake_idx ! i, distance = dis i \<rparr>)
                        (filter (\<lambda>i. i < length (ids' fake_idx)) [0..<count])
      in sort_key distance results)"

text \<open>\<^verbatim>\<open>serialize\<close> of the stub: the bytes of a fixed string.\<close>

definition serialize_stub :: "StubWrapper \<Rightarrow> byte list" where
  "serialize_stub w = map of_char ''stub_faiss_index_v1.0''"

text \<open>\<^verbatim>\<open>deserialize\<close> of the stub: ``Accept any data for stub implementation''.\<close>

definition deserialize_stub :: "StubWrapper \<Rightarrow> byte list \<Rightarrow> int \<times> StubWrapper" where
  "deserialize_stub w data = (0, w)"

definition train_stub :: "StubWrapper \<Rightarrow> cfloat list option \<Rightarrow> nat \<Rightarrow> StubWrapper" where
  "train_stub w training_data count = w\<lparr> trained_s := True \<rparr>"

definition is_trained_stub :: "StubWrapper \<Rightarrow> bool" where
  "is_trained_stub w = trained_s w"

definition get_ntotal_stub :: "StubWrapper \<Rightarrow> nat" where
  "get_ntotal_stub w = length (ids' (index_s w))"

section \<open>A small executable library instance\<close>

text \<open>
  To run the FAISS-backed wrapper on concrete inputs the library parameter needs a
  value. \<open>ref_faiss\<close> is an exact brute-force one: every index keeps its rows and
  answers a query with the \<open>k\<close> rows of least squared Euclidean distance, padding the
  labels with \<open>-1\<close>; an index constructed with inverted lists refuses additions and
  queries until it has been trained; writing supports \<^verbatim>\<open>IndexFlatL2\<close> only, and only
  rows whose identifier and components are integers from 0 to 255, one byte each.
\<close>

record ref_index =
  ref_ctor :: faiss_ctor
  ref_trained :: bool
  ref_rows :: "(idx_t \<times> cfloat list) list"

fun ctor_d :: "faiss_ctor \<Rightarrow> int" where
  "ctor_d (IndexFlatL2 d) = d"
| "ctor_d (IndexIVFFlat q d n) = d"
| "ctor_d (IndexHNSWFlat d M efc) = d"
| "ctor_d (GpuIndexFlat d) = d"
| "ctor_d (GpuIndexIVFFlat d n) = d"

definition ref_new :: "faiss_ctor \<Rightarrow> ref_index" where
  "ref_new c = \<lparr> ref_ctor = c, ref_trained = (nlist c = None), ref_rows = [] \<rparr>"

definition ref_train :: "ref_index \<Rightarrow> nat \<Rightarrow> cfloat list \<Rightarrow> ref_index \<times> string option" where
  "ref_train ix n x = (ix\<lparr> ref_trained := True \<rparr>, None)"

definition chunks :: "nat \<Rightarrow> nat \<Rightarrow> 'a list \<Rightarrow> 'a list list" where
  "chunks d n xs = map (\<lambda>i. take d (drop (i * d) xs)) [0..<n]"

definition ref_add_with_ids ::
  "ref_index \<Rightarrow> nat \<Rightarrow> cfloat list \<Rightarrow> idx_t list \<Rightarrow> ref_index \<times> string option" where
  "ref_add_with_ids ix n x xids =
     (if ref_trained ix
      then (ix\<lparr> ref_rows := ref_rows ix @ zip (take n xids) (chunks (nat (ctor_d (ref_ctor ix))) n x) \<rparr>,
            None)
      else (ix, Some ''index not trained''))"

definition ref_add :: "ref_index \<Rightarrow> nat \<Rightarrow> cfloat list \<Rightarrow> ref_index \<times> string option" where
  "ref_add ix n x =
     ref_add_with_ids ix n x (map int [length (ref_rows ix)..<length (ref_rows ix) + n])"

definition fvec_L2sqr :: "cfloat list \<Rightarrow> cfloat list \<Rightarrow> cfloat" where
  "fvec_L2sqr x y = sum_list (map2 (\<lambda>a b. (a - b) * (a - b)) x y)"

definition ref_search ::
  "ref_index \<Rightarrow> nat \<Rightarrow> cfloat list \<Rightarrow> nat \<Rightarrow> (cfloat list \<times> idx_t list) outcome" where
  "ref_search ix n x k =
     (if \<not> ref_trained ix then Threw ''index not trained''
      else
        (let top = take k (sort_key fst (map (\<lambda>(i, v). (fvec_L2sqr x v, i)) (ref_rows ix)))
         in Returned (map fst top @ replicate (k - length top) 0,
                      map snd top @ replicate (k - length top) (- 1))))"

definition is_byte :: "cfloat \<Rightarrow> bool" where
  "is_byte c = (c = of_int \<lfloor>c\<rfloor> \<and> 0 \<le> c \<and> c \<le> 255)"

definition to_byte :: "cfloat \<Rightarrow> byte" where
  "to_byte c = of_int \<lfloor>c\<rfloor>"

definition ref_write :: "ref_index \<Rightarrow> byte list outcome" where
  "ref_write ix =
     (case ref_ctor ix of
        IndexFlatL2 d \<Rightarrow>
          if 0 < d \<and> d \<le> 255
             \<and> (\<forall>(i, v) \<in> set (ref_rows ix).
                   0 \<le> i \<and> i \<le> 255 \<and> int (length v) = d \<and> (\<forall>c \<in> set v. is_byte c))
          then Returned (of_int d # concat (map (\<lambda>(i, v). of_int i # map to_byte v) (ref_rows ix)))
          else Threw ''cannot write these rows''
      | _ \<Rightarrow> Threw ''don't know how to serialize this type of index'')"

fun ref_read_rows :: "nat \<Rightarrow> byte list \<Rightarrow> (idx_t \<times> cfloat list) list option" where
  "ref_read_rows d [] = Some []"
| "ref_read_rows d (b # bs) =
     (if length bs < d then None
      else (case ref_read_rows d (drop d bs) of
              None \<Rightarrow> None
            | Some rows \<Rightarrow> Some ((uint b, map (\<lambda>c. of_int (uint c)) (take d bs)) # rows)))"

definition ref_read :: "byte list \<Rightarrow> ref_index option outcome" where
  "ref_read data =
     (case data of
        [] \<Rightarrow> Threw ''read error''
      | h # rest \<Rightarrow>
          if h = 0 then Threw ''bad dimension''
          else (case ref_read_rows (unat h) rest of
                  None \<Rightarrow> Threw ''read error''
                | Some rows \<Rightarrow>
                    Returned (Some \<lparr> ref_ctor = IndexFlatL2 (uint h), ref_trained = True,
                                     ref_rows = rows \<rparr>)))"

definition ref_faiss :: "ref_index faiss" where
  "ref_faiss =
     \<lparr> new_index = ref_new,
       index_is_trained = ref_trained,
       index_ntotal = (\<lambda>ix. length (ref_rows ix)),
       index_train = ref_train,
       index_add = ref_add,
       index_add_with_ids = ref_add_with_ids,
       index_search = ref_search,
       write_index = ref_write,
       read_index = ref_read \<rparr>"

section \<open>The row store (pgv\_operations.cpp)\<close>

subsection \<open>Stream output of numbers\<close>

text \<open>
  The SQL text is built with \<^verbatim>\<open>operator<<\<close> on a string stream. An \<^verbatim>\<open>int64_t\<close> is
  written in decimal. A \<^verbatim>\<open>float\<close> is written as \<^verbatim>\<open>printf\<close> would write it: with
  \<^verbatim>\<open>std::fixed\<close> set, as \<^verbatim>\<open>%.pf\<close>; with the float field unset, which is how a stream
  starts, as \<^verbatim>\<open>%.pg\<close>; \<open>p\<close> is the stream's precision, 6 from the start. The values are
  the rationals that stand for finite floats, so infinities, NaN and the negative
  zero are not covered. A decimal digit that falls exactly half way is rounded to
  even, as the default rounding mode does.
\<close>

fun show_nat :: "nat \<Rightarrow> string" where
  "show_nat n =
     (if n < 10 then [''0123456789'' ! n]
      else show_nat (n div 10) @ [''0123456789'' ! (n mod 10)])"

definition show_int :: "int \<Rightarrow> string" where
  "show_int i = (if i < 0 then ''-'' @ show_nat (nat (- i)) else show_nat (nat i))"

definition pad_left :: "nat \<Rightarrow> string \<Rightarrow> string" where
  "pad_left n s = replicate (n - length s) (CHR ''0'') @ s"

definition strip_zeros :: "string \<Rightarrow> string" where
  "strip_zeros s = rev (dropWhile (\<lambda>c. c = CHR ''0'') (rev s))"

definition round_half_even :: "rat \<Rightarrow> nat" where
  "round_half_even x =
     (let f = \<lfloor>x\<rfloor>; r = x - of_int f
      in nat (if r < 1 / 2 then f
              else if 1 / 2 < r then f + 1
              else if even f then f else f + 1))"

text \<open>\<^verbatim>\<open>%.pf\<close>: the sign, the integer part, and \<open>p\<close> fractional digits.\<close>

definition put_fixed :: "nat \<Rightarrow> cfloat \<Rightarrow> string" where
  "put_fixed p x =
     (let m = round_half_even (\<bar>x\<bar> * 10 ^ p)
      in (if x < 0 then ''-'' else [])
         @ show_nat (m div 10 ^ p)
         @ (if p = 0 then [] else ''.'' @ pad_left p (show_nat (m mod 10 ^ p))))"

text \<open>
  The decimal exponent of a positive value, the \<open>X\<close> with \<open>10^X \<le> x < 10^(X+1)\<close>: for
  \<open>x \<ge> 1\<close> from the number of digits of its integer part, below 1 by counting how
  often it must be multiplied by ten to reach 1.
\<close>

function scale_up :: "rat \<Rightarrow> nat \<Rightarrow> nat" where
  "scale_up x j = (if x \<le> 0 \<or> 1 \<le> x * 10 ^ j then j else scale_up x (Suc j))"
  by pat_completeness auto
termination
proof (relation "measure (\<lambda>(x, j). nat \<lceil>1 / x\<rceil> - 10 ^ j)")
  show "wf (measure (\<lambda>(x, j). nat \<lceil>1 / x\<rceil> - 10 ^ j))"
    by simp
next
  fix x :: rat and j :: nat
  assume "\<not> (x \<le> 0 \<or> 1 \<le> x * 10 ^ j)"
  then have pos: "0 < x" and small: "x * 10 ^ j < 1"
    by simp_all
  from pos small have "(10 :: rat) ^ j < 1 / x"
    by (simp add: pos_less_divide_eq mult.commute)
  also have "1 / x \<le> of_int \<lceil>1 / x\<rceil>"
    by (rule le_of_int_ceiling)
  finally have "(of_int (10 ^ j) :: rat) < of_int \<lceil>1 / x\<rceil>"
    by simp
  then have "(10 :: int) ^ j < \<lceil>1 / x\<rceil>"
    by (simp only: of_int_less_iff)
  then have below: "(10 :: nat) ^ j < nat \<lceil>1 / x\<rceil>"
    by (simp add: nat_less_iff flip: of_nat_power)
  have "(10 :: nat) ^ j < 10 ^ Suc j"
    by simp
  then have "nat \<lceil>1 / x\<rceil> - 10 ^ Suc j < nat \<lceil>1 / x\<rceil> - 10 ^ j"
    using below by (rule diff_less_mono2)
  then show "((x, Suc j), (x, j)) \<in> measure (\<lambda>(x, j). nat \<lceil>1 / x\<rceil> - 10 ^ j)"
    by (simp del: power_Suc)
qed

definition decimal_exponent :: "rat \<Rightarrow> int" where
  "decimal_exponent x =
     (if 1 \<le> x then int (length (show_nat (nat \<lfloor>x\<rfloor>))) - 1 else - int (scale_up x 0))"

definition scale10 :: "rat \<Rightarrow> int \<Rightarrow> rat" where
  "scale10 x e = (if 0 \<le> e then x * 10 ^ nat e else x / 10 ^ nat (- e))"

text \<open>
  \<^verbatim>\<open>%.pg\<close>: with \<open>P\<close> the precision (1 if it is 0) and \<open>X\<close> the exponent the value has
  once rounded to \<open>P\<close> significant digits, fixed notation with \<open>P - 1 - X\<close> fractional
  digits if \<open>-4 \<le> X < P\<close>, else scientific notation with \<open>P - 1\<close> fractional digits and
  an exponent of at least two digits; trailing zeros of the fraction are removed, and
  the point with them if nothing remains.
\<close>

definition put_general :: "nat \<Rightarrow> cfloat \<Rightarrow> string" where
  "put_general prec x =
     (let P = (if prec = 0 then 1 else prec);
          sign = (if x < 0 then ''-'' else [])
      in if x = 0 then ''0''
         else
           (let X0 = decimal_exponent \<bar>x\<bar>;
                m0 = round_half_even (scale10 \<bar>x\<bar> (int P - 1 - X0));
                X = (if m0 = 10 ^ P then X0 + 1 else X0);
                m = (if m0 = 10 ^ P then 10 ^ (P - 1) else m0)
            in if - 4 \<le> X \<and> X < int P then
                 (let p = nat (int P - 1 - X);
                      fp = strip_zeros (pad_left p (show_nat (m mod 10 ^ p)))
                  in sign @ show_nat (m div 10 ^ p) @ (if fp = [] then [] else ''.'' @ fp))
               else
                 (let ds = show_nat m;
                      fp = strip_zeros (tl ds)
                  in sign @ [hd ds] @ (if fp = [] then [] else ''.'' @ fp)
                     @ ''e'' @ (if X < 0 then ''-'' else ''+'')
                     @ pad_left 2 (show_nat (nat \<bar>X\<bar>)))))"

text \<open>
  The part of a stream's format state that decides how a float is written, and the
  output of a float under it. \<^verbatim>\<open>std::fixed\<close> sets the float field,
  \<^verbatim>\<open>std::setprecision(n)\<close> the precision.
\<close>

datatype floatfield = unset | fixed

record fmt =
  floatfield_of :: floatfield
  precision_of :: nat

definition initial_fmt :: fmt where
  "initial_fmt = \<lparr> floatfield_of = unset, precision_of = 6 \<rparr>"

definition put_float :: "fmt \<Rightarrow> cfloat \<Rightarrow> string" where
  "put_float f x =
     (case floatfield_of f of
        fixed \<Rightarrow> put_fixed (precision_of f) x
      | unset \<Rightarrow> put_general (precision_of f) x)"

subsection \<open>The statements\<close>

text \<open>
  The three functions that write vectors build the bracketed list with the same loop,
  \<^verbatim>\<open>if (j > 0) query << ","; query << ... << v[j];\<close>. In \<^verbatim>\<open>insert_vector\<close> and
  \<^verbatim>\<open>batch_insert_vectors\<close> the element is preceded by
  \<^verbatim>\<open>std::fixed << std::setprecision(6)\<close>, so every element is written in the format
  state \<open>fixed6 initial_fmt\<close>; in \<^verbatim>\<open>store_vectors\<close> it is written to a fresh
  \<^verbatim>\<open>std::stringstream\<close> as it is, in the state \<open>initial_fmt\<close>. \<open>put_components f\<close> is
  the loop with every element written in state \<open>f\<close>.
\<close>

fun put_components :: "fmt \<Rightarrow> cfloat list \<Rightarrow> string" where
  "put_components f [] = []"
| "put_components f [x] = put_float f x"
| "put_components f (x # y # ys) = put_float f x @ '','' @ put_components f (y # ys)"

definition fixed6 :: "fmt \<Rightarrow> fmt" where
  "fixed6 f = f\<lparr> floatfield_of := fixed, precision_of := 6 \<rparr>"

text \<open>\<^verbatim>\<open>insert_vector\<close>: the statement it passes to \<^verbatim>\<open>execute_query\<close>.\<close>

definition insert_vector_query :: "string \<Rightarrow> idx_t \<Rightarrow> cfloat list \<Rightarrow> string" where
  "insert_vector_query table_name i v =
     ''INSERT INTO '' @ table_name @ '' (id, embedding) VALUES ('' @ show_int i @ '', '[''
       @ put_components (fixed6 initial_fmt) v @ '']')''"

text \<open>
  \<^verbatim>\<open>execute_query\<close>: false without a connection, else whether the server reports the
  command as done; \<open>PQexec_ok\<close> is the server's answer to a statement.
\<close>

definition execute_query :: "bool \<Rightarrow> (string \<Rightarrow> bool) \<Rightarrow> string \<Rightarrow> bool" where
  "execute_query is_connected PQexec_ok query = (is_connected \<and> PQexec_ok query)"

definition insert_vector ::
  "bool \<Rightarrow> (string \<Rightarrow> bool) \<Rightarrow> string \<Rightarrow> idx_t \<Rightarrow> cfloat list \<Rightarrow> bool" where
  "insert_vector is_connected PQexec_ok table_name i v =
     execute_query is_connected PQexec_ok (insert_vector_query table_name i v)"

text \<open>
  \<^verbatim>\<open>batch_insert_vectors\<close>: one statement with a row per vector, the rows separated by
  a comma and a blank. \<open>None\<close> is the early \<^verbatim>\<open>return false\<close> for lists of different
  lengths.
\<close>

definition batch_row :: "idx_t \<times> cfloat list \<Rightarrow> string" where
  "batch_row r =
     ''('' @ show_int (fst r) @ '', '['' @ put_components (fixed6 initial_fmt) (snd r) @ '']')''"

fun batch_rows :: "(idx_t \<times> cfloat list) list \<Rightarrow> string" where
  "batch_rows [] = []"
| "batch_rows [r] = batch_row r"
| "batch_rows (r # r' # rest) = batch_row r @ '', '' @ batch_rows (r' # rest)"

definition batch_insert_vectors_query ::
  "string \<Rightarrow> idx_t list \<Rightarrow> cfloat list list \<Rightarrow> string option" where
  "batch_insert_vectors_query table_name is vs =
     (if length is \<noteq> length vs then None
      else Some (''INSERT INTO '' @ table_name @ '' (id, embedding) VALUES ''
                 @ batch_rows (zip is vs)))"

definition batch_insert_vectors ::
  "bool \<Rightarrow> (string \<Rightarrow> bool) \<Rightarrow> string \<Rightarrow> idx_t list \<Rightarrow> cfloat list list \<Rightarrow> bool" where
  "batch_insert_vectors is_connected PQexec_ok table_name is vs =
     (case batch_insert_vectors_query table_name is vs of
        None \<Rightarrow> False
      | Some query \<Rightarrow> execute_query is_connected PQexec_ok query)"

text \<open>
  \<^verbatim>\<open>store_vectors\<close>: it throws without a connection and for lists of different
  lengths; otherwise it sends \<^verbatim>\<open>BEGIN\<close>, one \<^verbatim>\<open>INSERT\<close> per vector and \<^verbatim>\<open>COMMIT\<close>, and
  \<^verbatim>\<open>ROLLBACK\<close> after an \<^verbatim>\<open>INSERT\<close> the server refuses. The result is the returned
  boolean and the statements sent, in order; \<open>PQexec_ok sent q\<close> is the server's
  answer to \<open>q\<close> after the statements \<open>sent\<close>.
\<close>

definition store_vectors_query :: "string \<Rightarrow> idx_t \<Rightarrow> cfloat list \<Rightarrow> string" where
  "store_vectors_query table_name i v =
     ''INSERT INTO '' @ table_name @ '' (id, embedding) VALUES ('' @ show_int i @ '', '[''
       @ put_components initial_fmt v @ '']')''"

fun store_rows ::
  "(string list \<Rightarrow> string \<Rightarrow> bool) \<Rightarrow> string \<Rightarrow> (cfloat list \<times> idx_t) list \<Rightarrow> string list
     \<Rightarrow> bool \<times> string list" where
  "store_rows PQexec_ok table_name [] sent = (PQexec_ok sent ''COMMIT'', sent @ [''COMMIT''])"
| "store_rows PQexec_ok table_name ((v, i) # rest) sent =
     (if PQexec_ok sent (store_vectors_query table_name i v)
      then store_rows PQexec_ok table_name rest (sent @ [store_vectors_query table_name i v])
      else (False, sent @ [store_vectors_query table_name i v, ''ROLLBACK'']))"

definition store_vectors ::
  "bool \<Rightarrow> (string list \<Rightarrow> string \<Rightarrow> bool) \<Rightarrow> string \<Rightarrow> cfloat list list \<Rightarrow> idx_t list
     \<Rightarrow> (bool \<times> string list) outcome" where
  "store_vectors conn PQexec_ok table_name vs is =
     (if \<not> conn then Threw ''Database connection not established''
      else if length vs \<noteq> length is then Threw ''Vector and ID count mismatch''
      else if \<not> PQexec_ok [] ''BEGIN'' then Returned (False, [''BEGIN''])
      else Returned (store_rows PQexec_ok table_name (zip vs is) [''BEGIN'']))"

declare show_nat.simps [simp del] scale_up.simps [simp del]

section \<open>Auxiliary notions for the properties\<close>

text \<open>
  A blob is rejected when \<^verbatim>\<open>faiss::read_index\<close> throws on it or returns null.
\<close>

definition rejected :: "'i faiss \<Rightarrow> byte list \<Rightarrow> bool" where
  "rejected L data =
     (case read_index L data of Threw e \<Rightarrow> True | Returned None \<Rightarrow> True | Returned (Some ix) \<Rightarrow> False)"

section \<open>Properties\<close>

subsection \<open>Index construction\<close>

lemma sqrt_100000_floor: "\<lfloor>sqrt (100000 :: real)\<rfloor> = 316"
proof -
  have lo: "(316 :: real) \<le> sqrt 100000"
    by (rule real_le_rsqrt) simp
  have hi: "sqrt (100000 :: real) < 317"
    by (rule real_less_lsqrt) simp_all
  from lo hi show ?thesis
    by (simp add: floor_eq_iff)
qed

lemma ncentroids_value: "ncentroids = 1264"
  by (simp add: ncentroids_def sqrt_100000_floor)

declare ncentroids_value [code]


lemmas ref_simps = ref_faiss_def ref_new_def ref_train_def ref_add_with_ids_def ref_add_def
  ref_search_def chunks_def FAISSWrapper_init_def create_index_def ncentroids_value
  is_trained_def train_def add_vectors_def search_def train_count_def Let_def

text \<open>
  C7. An index-type string other than \<^verbatim>\<open>"Flat"\<close>, \<^verbatim>\<open>"IVFFlat"\<close> and \<^verbatim>\<open>"HNSW"\<close> does not
  make construction fail: \<^verbatim>\<open>create_index\<close> falls through to
  \<^verbatim>\<open>new faiss::IndexFlatL2(dimension)\<close>, whether or not the GPU was asked for, and the
  constructed wrapper holds that index.
\<close>

theorem create_index_unrecognized_is_Flat:
  "index_type \<noteq> ''Flat'' \<and> index_type \<noteq> ''IVFFlat'' \<and> index_type \<noteq> ''HNSW'' \<longrightarrow>
     create_index with_gpu use_gpu index_type dimension = IndexFlatL2 dimension
     \<and> index_' (FAISSWrapper_init L with_gpu getNumDevices dimension index_type use_gpu gpu_device)
         = Some (new_index L (IndexFlatL2 dimension))"
  by (simp add: create_index_def FAISSWrapper_init_def Let_def)

theorem create_index_unrecognized_is_Flat_witness:
  "(''InvertedFile'' \<noteq> ''Flat'' \<and> ''InvertedFile'' \<noteq> ''IVFFlat'' \<and> ''InvertedFile'' \<noteq> ''HNSW'')
   \<and> create_index True True ''InvertedFile'' 128 = IndexFlatL2 128
   \<and> index_' (FAISSWrapper_init ref_faiss True 1 128 ''InvertedFile'' True 0)
         = Some \<lparr> ref_ctor = IndexFlatL2 128, ref_trained = True, ref_rows = [] \<rparr>"
  using create_index_unrecognized_is_Flat
    [where index_type = "''InvertedFile''" and with_gpu = True and use_gpu = True
       and dimension = 128 and L = ref_faiss and getNumDevices = 1 and gpu_device = 0]
  by (simp add: ref_faiss_def ref_new_def)

text \<open>
  C8. An \<^verbatim>\<open>"IVFFlat"\<close> index is constructed with
  \<open>min (4 * \<lfloor>sqrt 100000\<rfloor>) 65536\<close> inverted lists, the square root truncated to an
  integer: 1264. This holds for the CPU index and the GPU index of \<^verbatim>\<open>create_index\<close>
  and for the index \<^verbatim>\<open>create_gpu_index\<close> returns when it returns one.
\<close>

theorem ivfflat_cluster_count:
  "nlist (create_index with_gpu use_gpu ''IVFFlat'' dimension)
     = Some (min (4 * \<lfloor>sqrt (100000 :: real)\<rfloor>) 65536)
   \<and> (create_gpu_index ctor_ok gpu_resources ''IVFFlat'' dimension = Some c \<longrightarrow>
        nlist c = Some (min (4 * \<lfloor>sqrt (100000 :: real)\<rfloor>) 65536))
   \<and> min (4 * \<lfloor>sqrt (100000 :: real)\<rfloor>) 65536 = (1264 :: int)"
  by (auto simp: create_index_def create_gpu_index_def ncentroids_def Let_def
        sqrt_100000_floor split: if_splits)

theorem ivfflat_cluster_count_witness:
  "create_gpu_index (\<lambda>c. True) True ''IVFFlat'' 8 = Some (GpuIndexIVFFlat 8 1264)
   \<and> nlist (GpuIndexIVFFlat 8 1264) = Some 1264
   \<and> nlist (create_index False False ''IVFFlat'' 8) = Some 1264"
  using ivfflat_cluster_count
    [where with_gpu = False and use_gpu = False and dimension = 8
       and ctor_ok = "\<lambda>c. True" and gpu_resources = True and c = "GpuIndexIVFFlat 8 1264"]
  by (simp add: create_gpu_index_def ncentroids_value)

subsection \<open>Adding vectors\<close>

text \<open>
  C10, as the code has it. In the FAISS-backed wrapper, \<^verbatim>\<open>add_vectors\<close> with a null
  \<^verbatim>\<open>vectors\<close> pointer or with a count of zero returns \<open>-1\<close> and leaves the wrapper,
  its index, its training flag and its call history included, exactly as it was. The
  stub build's \<^verbatim>\<open>add_vectors\<close> has no such test: with a count of zero its loop does
  not run and it returns \<open>0\<close>, success, leaving the wrapper as it was.
\<close>

theorem add_vectors_null_or_empty:
  "(vectors = None \<or> count = 0 \<longrightarrow> add_vectors L w vectors ids count = (- 1, w))
   \<and> add_vectors_stub s vectors ids 0 = Some (0, s)"
  by (auto simp: add_vectors_def add_vectors_stub_def split: option.splits)

theorem add_vectors_null_or_empty_witness:
  "add_vectors ref_faiss (FAISSWrapper_init ref_faiss False 0 4 ''IVFFlat'' False 0)
       (Some [1, 2, 3, 4]) (Some [7]) 0
     = (- 1, FAISSWrapper_init ref_faiss False 0 4 ''IVFFlat'' False 0)
   \<and> add_vectors ref_faiss (FAISSWrapper_init ref_faiss False 0 4 ''IVFFlat'' False 0)
       None (Some [7]) 1
     = (- 1, FAISSWrapper_init ref_faiss False 0 4 ''IVFFlat'' False 0)
   \<and> add_vectors_stub (FAISSWrapper_stub 4 ''IVFFlat'' False 0) (Some [1, 2, 3, 4]) (Some [7]) 0
     = Some (0, FAISSWrapper_stub 4 ''IVFFlat'' False 0)"
  using add_vectors_null_or_empty
    [where vectors = "Some [1, 2, 3, 4]" and count = 0 and L = ref_faiss and ids = "Some [7]"
       and w = "FAISSWrapper_init ref_faiss False 0 4 ''IVFFlat'' False 0"
       and s = "FAISSWrapper_stub 4 ''IVFFlat'' False 0"]
    add_vectors_null_or_empty
    [where vectors = None and count = 1 and L = ref_faiss and ids = "Some [7]"
       and w = "FAISSWrapper_init ref_faiss False 0 4 ''IVFFlat'' False 0"
       and s = "FAISSWrapper_stub 4 ''IVFFlat'' False 0"]
  by simp

text \<open>
  The stub build on a batch with a count of zero: \<^verbatim>\<open>add_vectors\<close> reports success, so
  it is not true of every index that such a call is answered with \<open>-1\<close>.
\<close>

theorem add_vectors_stub_accepts_empty_batch:
  "add_vectors_stub (FAISSWrapper_stub 4 ''Flat'' False 0) (Some []) (Some []) 0
     = Some (0, FAISSWrapper_stub 4 ''Flat'' False 0)"
  by (simp add: add_vectors_stub_def)

subsection \<open>Restoring from a blob\<close>

text \<open>
  C6, as the code has it. In the FAISS-backed wrapper \<^verbatim>\<open>deserialize\<close> fails on an
  empty blob with status \<open>-1\<close> and on a non-empty blob the library rejects with
  status \<open>-3\<close> when \<^verbatim>\<open>read_index\<close> throws and \<open>-2\<close> when it returns null, and every
  failing call leaves the wrapper exactly as it was. The stub build accepts every
  blob, the empty one too: it returns \<open>0\<close> and also leaves the wrapper as it was.
\<close>

theorem deserialize_failure_keeps_state:
  "(data = [] \<or> rejected L data \<longrightarrow>
      fst (deserialize L w data) \<in> {- 1, - 2, - 3} \<and> snd (deserialize L w data) = w)
   \<and> (data = [] \<longrightarrow> fst (deserialize L w data) = - 1)
   \<and> (data \<noteq> [] \<and> read_index L data = Threw e \<longrightarrow> fst (deserialize L w data) = - 3)
   \<and> (data \<noteq> [] \<and> read_index L data = Returned None \<longrightarrow> fst (deserialize L w data) = - 2)
   \<and> (fst (deserialize L w data) \<noteq> 0 \<longrightarrow> snd (deserialize L w data) = w)
   \<and> deserialize_stub s data = (0, s)"
  by (auto simp: deserialize_def deserialize_stub_def rejected_def
        split: outcome.splits option.splits)

theorem deserialize_failure_keeps_state_witness:
  "rejected ref_faiss [4, 1, 2]
   \<and> read_index ref_faiss [4, 1, 2] = Threw ''read error''
   \<and> deserialize ref_faiss (FAISSWrapper_init ref_faiss False 0 4 ''Flat'' False 0) [4, 1, 2]
       = (- 3, FAISSWrapper_init ref_faiss False 0 4 ''Flat'' False 0)
   \<and> deserialize ref_faiss (FAISSWrapper_init ref_faiss False 0 4 ''Flat'' False 0) []
       = (- 1, FAISSWrapper_init ref_faiss False 0 4 ''Flat'' False 0)
   \<and> read_index (ref_faiss\<lparr> read_index := \<lambda>data. Returned None \<rparr>) [4, 1, 2] = Returned None
   \<and> deserialize (ref_faiss\<lparr> read_index := \<lambda>data. Returned None \<rparr>)
        (FAISSWrapper_init ref_faiss False 0 4 ''Flat'' False 0) [4, 1, 2]
       = (- 2, FAISSWrapper_init ref_faiss False 0 4 ''Flat'' False 0)
   \<and> deserialize_stub (FAISSWrapper_stub 4 ''Flat'' False 0) [4, 1, 2]
       = (0, FAISSWrapper_stub 4 ''Flat'' False 0)"
  using deserialize_failure_keeps_state
    [where data = "[4, 1, 2]" and L = ref_faiss and s = "FAISSWrapper_stub 4 ''Flat'' False 0"
       and w = "FAISSWrapper_init ref_faiss False 0 4 ''Flat'' False 0" and e = "''read error''"]
    deserialize_failure_keeps_state
    [where data = "[]" and L = ref_faiss and s = "FAISSWrapper_stub 4 ''Flat'' False 0"
       and w = "FAISSWrapper_init ref_faiss False 0 4 ''Flat'' False 0"]
    deserialize_failure_keeps_state
    [where data = "[4, 1, 2]" and L = "ref_faiss\<lparr> read_index := \<lambda>data. Returned None \<rparr>"
       and s = "FAISSWrapper_stub 4 ''Flat'' False 0"
       and w = "FAISSWrapper_init ref_faiss False 0 4 ''Flat'' False 0"]
  by (simp add: rejected_def ref_faiss_def ref_read_def deserialize_def)

text \<open>
  The stub build on the empty blob: \<^verbatim>\<open>deserialize\<close> reports success, so it is not true
  that every empty or malformed blob is answered with an error status.
\<close>

theorem deserialize_stub_accepts_empty_blob:
  "fst (deserialize_stub (FAISSWrapper_stub 4 ''Flat'' False 0) []) = 0"
  by (simp add: deserialize_stub_def)

subsection \<open>The training gate\<close>

lemma add_vectors_when_trained:
  assumes "trained_' w" "index_' w \<noteq> None"
  shows "trained_' (snd (add_vectors L w vectors ids count))
         \<and> index_' (snd (add_vectors L w vectors ids count)) \<noteq> None
         \<and> train_count (snd (add_vectors L w vectors ids count)) = train_count w"
  using assms
  by (auto simp: add_vectors_def is_trained_def train_count_def Let_def
           split: option.splits prod.splits)

lemma add_all_when_trained:
  "trained_' w \<Longrightarrow> index_' w \<noteq> None \<Longrightarrow> train_count (add_all L w batches) = train_count w"
proof (induction batches arbitrary: w)
  case Nil
  then show ?case by simp
next
  case (Cons b batches)
  obtain vectors ids count where b: "b = (vectors, ids, count)"
    by (cases b)
  from Cons.prems add_vectors_when_trained [of w L vectors ids count]
  have step: "trained_' (snd (add_vectors L w vectors ids count))"
    "index_' (snd (add_vectors L w vectors ids count)) \<noteq> None"
    "train_count (snd (add_vectors L w vectors ids count)) = train_count w"
    by simp_all
  from Cons.IH [OF step(1) step(2)] step(3) show ?case
    by (simp add: b)
qed

lemma first_add_trains:
  assumes "index_type_' w = ''IVFFlat''" "index_' w = Some ix" "\<not> is_trained L w" "0 < count"
  shows "lib_calls (snd (add_vectors L w (Some vs) ids count))
           = lib_calls w @ [Train (min count 100000) vs,
                            (case ids of Some is \<Rightarrow> AddWithIds count vs is | None \<Rightarrow> Add count vs)]"
    and "snd (index_train L ix (min count 100000) vs) = None \<Longrightarrow>
           trained_' (snd (add_vectors L w (Some vs) ids count))
           \<and> index_' (snd (add_vectors L w (Some vs) ids count)) \<noteq> None"
  using assms
  by (auto simp: add_vectors_def is_trained_def train_def Let_def
           split: option.splits prod.splits)

lemma train_sets_flag:
  assumes "index_' w = Some ix" "0 < n"
    "index_is_trained L ix \<or> snd (index_train L ix (min n 100000) td) = None"
  shows "trained_' (train L w (Some td) n) \<and> index_' (train L w (Some td) n) \<noteq> None"
  using assms by (auto simp: train_def Let_def split: option.splits prod.splits)

text \<open>
  C3, as the code has it. Take an \<^verbatim>\<open>"IVFFlat"\<close> wrapper that is not trained. An
  \<^verbatim>\<open>add_vectors\<close> call with a non-null batch and a positive count calls the library's
  \<^verbatim>\<open>train\<close> once, on \<^verbatim>\<open>min(count, 100000)\<close> vectors of that very batch, and then
  inserts the batch; if that training returns without an exception, no later
  \<^verbatim>\<open>add_vectors\<close> call trains again, whatever the calls are, so the number of
  trainings has grown by exactly one after the whole sequence. After an explicit
  \<^verbatim>\<open>train\<close> call that found the index trained or trained it without an exception, no
  later \<^verbatim>\<open>add_vectors\<close> call trains. A call with a null batch or a count of zero
  returns \<open>-1\<close> and trains nothing.
\<close>

theorem ivfflat_trains_once:
  "(index_type_' w = ''IVFFlat'' \<and> index_' w = Some ix \<and> \<not> is_trained L w \<and> 0 < count
      \<and> snd (index_train L ix (min count 100000) vs) = None \<longrightarrow>
      lib_calls (snd (add_vectors L w (Some vs) ids count))
        = lib_calls w @ [Train (min count 100000) vs,
                         (case ids of Some is \<Rightarrow> AddWithIds count vs is | None \<Rightarrow> Add count vs)]
      \<and> train_count (add_all L w ((Some vs, ids, count) # rest)) = train_count w + 1)
   \<and> (index_type_' w = ''IVFFlat'' \<and> index_' w = Some ix \<and> \<not> is_trained L w \<and> 0 < count \<longrightarrow>
      lib_calls (snd (add_vectors L w (Some vs) ids count))
        = lib_calls w @ [Train (min count 100000) vs,
                         (case ids of Some is \<Rightarrow> AddWithIds count vs is | None \<Rightarrow> Add count vs)])
   \<and> (index_' w = Some ix \<and> 0 < n
        \<and> (index_is_trained L ix \<or> snd (index_train L ix (min n 100000) td) = None) \<longrightarrow>
      train_count (add_all L (train L w (Some td) n) batches)
        = train_count (train L w (Some td) n))
   \<and> (vectors = None \<or> count = 0 \<longrightarrow>
        fst (add_vectors L w vectors ids count) = - 1
        \<and> train_count (snd (add_vectors L w vectors ids count)) = train_count w)"
proof (intro conjI impI)
  assume a: "index_type_' w = ''IVFFlat'' \<and> index_' w = Some ix \<and> \<not> is_trained L w \<and> 0 < count
      \<and> snd (index_train L ix (min count 100000) vs) = None"
  let ?w' = "snd (add_vectors L w (Some vs) ids count)"
  from a first_add_trains(1) [of w ix L count vs ids]
  show calls: "lib_calls ?w' = lib_calls w @ [Train (min count 100000) vs,
                         (case ids of Some is \<Rightarrow> AddWithIds count vs is | None \<Rightarrow> Add count vs)]"
    by simp
  from a first_add_trains(2) [of w ix L count vs ids]
  have t: "trained_' ?w'" "index_' ?w' \<noteq> None" by simp_all
  have "train_count ?w' = train_count w + 1"
    by (simp add: train_count_def calls split: option.splits)
  with add_all_when_trained [OF t, of L rest]
  show "train_count (add_all L w ((Some vs, ids, count) # rest)) = train_count w + 1"
    by simp
next
  assume "index_type_' w = ''IVFFlat'' \<and> index_' w = Some ix \<and> \<not> is_trained L w \<and> 0 < count"
  with first_add_trains(1) [of w ix L count vs ids]
  show "lib_calls (snd (add_vectors L w (Some vs) ids count))
        = lib_calls w @ [Train (min count 100000) vs,
                         (case ids of Some is \<Rightarrow> AddWithIds count vs is | None \<Rightarrow> Add count vs)]"
    by simp
next
  assume a: "index_' w = Some ix \<and> 0 < n
        \<and> (index_is_trained L ix \<or> snd (index_train L ix (min n 100000) td) = None)"
  with train_sets_flag [of w ix n L td]
  have "trained_' (train L w (Some td) n)" "index_' (train L w (Some td) n) \<noteq> None"
    by simp_all
  then show "train_count (add_all L (train L w (Some td) n) batches)
        = train_count (train L w (Some td) n)"
    by (rule add_all_when_trained)
next
  assume none: "vectors = None \<or> count = 0"
  then show "fst (add_vectors L w vectors ids count) = - 1"
    by (auto simp: add_vectors_def split: option.splits)
  from none show "train_count (snd (add_vectors L w vectors ids count)) = train_count w"
    by (auto simp: add_vectors_def split: option.splits)
qed

theorem ivfflat_trains_once_witness:
  "\<not> is_trained ref_faiss (FAISSWrapper_init ref_faiss False 0 2 ''IVFFlat'' False 0)
   \<and> lib_calls (snd (add_vectors ref_faiss (FAISSWrapper_init ref_faiss False 0 2 ''IVFFlat'' False 0)
        (Some [1, 2]) (Some [7]) 1)) = [Train 1 [1, 2], AddWithIds 1 [1, 2] [7]]
   \<and> train_count (add_all ref_faiss (FAISSWrapper_init ref_faiss False 0 2 ''IVFFlat'' False 0)
        [(Some [1, 2], Some [7], 1), (Some [3, 4], Some [8], 1)]) = 1
   \<and> train_count (add_all ref_faiss
        (train ref_faiss (FAISSWrapper_init ref_faiss False 0 2 ''IVFFlat'' False 0) (Some [5, 6]) 1)
        [(Some [3, 4], Some [8], 1)]) = 1"
  using ivfflat_trains_once
    [where L = ref_faiss and w = "FAISSWrapper_init ref_faiss False 0 2 ''IVFFlat'' False 0"
       and ix = "ref_new (IndexIVFFlat (IndexFlatL2 2) 2 1264)" and count = 1 and vs = "[1, 2]"
       and ids = "Some [7]" and rest = "[(Some [3, 4], Some [8], 1)]" and n = 1 and td = "[5, 6]"
       and batches = "[(Some [3, 4], Some [8], 1)]" and vectors = None]
  by (simp add: ref_simps)

text \<open>
  A sequence of one \<^verbatim>\<open>add_vectors\<close> call on an untrained \<^verbatim>\<open>"IVFFlat"\<close> wrapper after
  which training has not run: the call passes an empty batch, count zero.
\<close>

theorem empty_add_does_not_train:
  "index_type_' (FAISSWrapper_init ref_faiss False 0 2 ''IVFFlat'' False 0) = ''IVFFlat''
   \<and> \<not> is_trained ref_faiss (FAISSWrapper_init ref_faiss False 0 2 ''IVFFlat'' False 0)
   \<and> train_count (add_all ref_faiss (FAISSWrapper_init ref_faiss False 0 2 ''IVFFlat'' False 0)
        [(Some [], Some [], 0)]) = 0"
  by (simp add: ref_simps)

subsection \<open>Searching\<close>

text \<open>
  C2, as the code has it. \<^verbatim>\<open>search\<close> of the FAISS-backed wrapper neither consults
  the training state nor trains: every call leaves the wrapper exactly as it was, and
  its result does not depend on \<^verbatim>\<open>trained_\<close>. On an index of any type and training
  state it calls the library's search and returns, in order, the entries of the
  positions whose label is not negative; two wrappers whose library calls give the
  same answer return the same results. When the library call throws, or the buffers
  cannot be allocated, the exception is swallowed and the result is the empty vector,
  which is also what a search returns when the library reports negative labels only.
\<close>

theorem search_ignores_training_state:
  "snd (search can_allocate L w query k) = w
   \<and> fst (search can_allocate L (w\<lparr> trained_' := b \<rparr>) query k)
       = fst (search can_allocate L w query k)
   \<and> (index_' w = Some ix \<and> 0 < k \<and> can_allocate k
        \<and> index_search L ix 1 q k = Returned (distances, labels) \<longrightarrow>
      fst (search can_allocate L w (Some q) k)
        = map (\<lambda>i. \<lparr> id' = buf labels i, distance = buf distances i \<rparr>)
              (filter (\<lambda>i. 0 \<le> buf labels i) [0..<k])
      \<and> ((\<forall>i < k. buf labels i < 0) \<longrightarrow> fst (search can_allocate L w (Some q) k) = []))
   \<and> (index_' w = Some ix \<and> index_' w2 = Some ix2
        \<and> index_search L ix 1 q k = index_search L2 ix2 1 q k \<longrightarrow>
      fst (search can_allocate L w (Some q) k) = fst (search can_allocate L2 w2 (Some q) k))
   \<and> (index_' w = Some ix \<and> (\<not> can_allocate k \<or> index_search L ix 1 q k = Threw e) \<longrightarrow>
      fst (search can_allocate L w (Some q) k) = [])"
proof (intro conjI impI)
  show "snd (search can_allocate L w query k) = w"
    by (simp add: search_def split: option.splits outcome.splits prod.splits)
  show "fst (search can_allocate L (w\<lparr> trained_' := b \<rparr>) query k)
       = fst (search can_allocate L w query k)"
    by (simp add: search_def split: option.splits outcome.splits prod.splits)
next
  assume a: "index_' w = Some ix \<and> 0 < k \<and> can_allocate k
        \<and> index_search L ix 1 q k = Returned (distances, labels)"
  then show entries: "fst (search can_allocate L w (Some q) k)
        = map (\<lambda>i. \<lparr> id' = buf labels i, distance = buf distances i \<rparr>)
              (filter (\<lambda>i. 0 \<le> buf labels i) [0..<k])"
    by (simp add: search_def)
  assume "\<forall>i < k. buf labels i < 0"
  then have "filter (\<lambda>i. 0 \<le> buf labels i) [0..<k] = []"
    by (auto simp: filter_empty_conv)
  with entries show "fst (search can_allocate L w (Some q) k) = []"
    by simp
next
  assume "index_' w = Some ix \<and> index_' w2 = Some ix2
        \<and> index_search L ix 1 q k = index_search L2 ix2 1 q k"
  then show "fst (search can_allocate L w (Some q) k) = fst (search can_allocate L2 w2 (Some q) k)"
    by (simp add: search_def split: outcome.splits prod.splits)
next
  assume "index_' w = Some ix \<and> (\<not> can_allocate k \<or> index_search L ix 1 q k = Threw e)"
  then show "fst (search can_allocate L w (Some q) k) = []"
    by (auto simp: search_def)
qed

theorem search_ignores_training_state_witness:
  "\<not> is_trained ref_faiss (FAISSWrapper_init ref_faiss False 0 4 ''IVFFlat'' False 0)
   \<and> index_search ref_faiss (ref_new (IndexIVFFlat (IndexFlatL2 4) 4 1264)) 1 [0, 0, 0, 0] 2
     = Threw ''index not trained''
   \<and> search (\<lambda>k. True) ref_faiss (FAISSWrapper_init ref_faiss False 0 4 ''IVFFlat'' False 0)
        (Some [0, 0, 0, 0]) 2
     = ([], FAISSWrapper_init ref_faiss False 0 4 ''IVFFlat'' False 0)
   \<and> search (\<lambda>k. True) (ref_faiss\<lparr> index_search := \<lambda>ix n x k. Returned ([2, 0], [- 1, 7]) \<rparr>)
        (FAISSWrapper_init ref_faiss False 0 4 ''IVFFlat'' False 0) (Some [0, 0, 0, 0]) 2
     = ([\<lparr> id' = 7, distance = 0 \<rparr>], FAISSWrapper_init ref_faiss False 0 4 ''IVFFlat'' False 0)
   \<and> search (\<lambda>k. True) (ref_faiss\<lparr> index_search := \<lambda>ix n x k. Returned ([0, 0], [- 1, - 1]) \<rparr>)
        (FAISSWrapper_init ref_faiss False 0 4 ''IVFFlat'' False 0) (Some [0, 0, 0, 0]) 2
     = ([], FAISSWrapper_init ref_faiss False 0 4 ''IVFFlat'' False 0)"
  using search_ignores_training_state
    [where L = ref_faiss and w = "FAISSWrapper_init ref_faiss False 0 4 ''IVFFlat'' False 0"
       and ix = "ref_new (IndexIVFFlat (IndexFlatL2 4) 4 1264)" and q = "[0, 0, 0, 0]" and k = 2
       and e = "''index not trained''" and can_allocate = "\<lambda>k. True" and query = "Some [0, 0, 0, 0]"
       and ?w2.0 = "FAISSWrapper_init ref_faiss False 0 4 ''IVFFlat'' False 0"
       and ?ix2.0 = "ref_new (IndexIVFFlat (IndexFlatL2 4) 4 1264)" and ?L2.0 = ref_faiss]
    search_ignores_training_state
    [where L = "ref_faiss\<lparr> index_search := \<lambda>ix n x k. Returned ([2, 0], [- 1, 7]) \<rparr>"
       and w = "FAISSWrapper_init ref_faiss False 0 4 ''IVFFlat'' False 0"
       and ix = "ref_new (IndexIVFFlat (IndexFlatL2 4) 4 1264)" and q = "[0, 0, 0, 0]" and k = 2
       and can_allocate = "\<lambda>k. True" and query = "Some [0, 0, 0, 0]"
       and distances = "[2, 0]" and labels = "[- 1, 7]"]
    search_ignores_training_state
    [where L = "ref_faiss\<lparr> index_search := \<lambda>ix n x k. Returned ([0, 0], [- 1, - 1]) \<rparr>"
       and w = "FAISSWrapper_init ref_faiss False 0 4 ''IVFFlat'' False 0"
       and ix = "ref_new (IndexIVFFlat (IndexFlatL2 4) 4 1264)" and q = "[0, 0, 0, 0]" and k = 2
       and can_allocate = "\<lambda>k. True" and query = "Some [0, 0, 0, 0]"
       and distances = "[0, 0]" and labels = "[- 1, - 1]"]
  by (simp add: ref_simps buf_def upt_conv_Cons prod_eq_iff)

text \<open>
  An untrained \<^verbatim>\<open>"IVFFlat"\<close> wrapper and a \<^verbatim>\<open>"Flat"\<close> wrapper without vectors, both
  fresh from the constructor and run on the library instance \<open>ref_faiss\<close>: the search
  on the untrained one returns normally, with the same empty vector as the search
  on the empty one.
\<close>

theorem untrained_search_returns_normally:
  "index_type_' (FAISSWrapper_init ref_faiss False 0 4 ''IVFFlat'' False 0) = ''IVFFlat''
   \<and> \<not> is_trained ref_faiss (FAISSWrapper_init ref_faiss False 0 4 ''IVFFlat'' False 0)
   \<and> fst (search (\<lambda>k. True) ref_faiss (FAISSWrapper_init ref_faiss False 0 4 ''IVFFlat'' False 0)
        (Some [0, 0, 0, 0]) 2) = []
   \<and> fst (search (\<lambda>k. True) ref_faiss (FAISSWrapper_init ref_faiss False 0 4 ''Flat'' False 0)
        (Some [0, 0, 0, 0]) 2) = []"
  by (simp add: ref_simps buf_def upt_conv_Cons)

lemma stub_loop_test: "filter (\<lambda>i. i < n) [0..<min k n] = [0..<min k n]"
  by (rule filter_True) simp

lemma length_search_stub: "length (search_stub dis s query k) = min k (get_ntotal_stub s)"
  by (simp add: search_stub_def get_ntotal_stub_def Let_def stub_loop_test)

lemma first_ids: "map (\<lambda>i. xs ! i) [0..<min k (length xs)] = take k xs"
  by (simp add: list_eq_iff_nth_eq)

lemma ids_search_stub:
  "set (map id' (search_stub dis s query k)) = set (take k (ids' (index_s s)))"
proof -
  have "set (map id' (search_stub dis s query k))
          = id' ` set (map (\<lambda>i. \<lparr> id' = ids' (index_s s) ! i, distance = dis i \<rparr>)
                           [0..<min k (length (ids' (index_s s)))])"
    by (simp add: search_stub_def Let_def stub_loop_test)
  also have "\<dots> = set (map (\<lambda>i. ids' (index_s s) ! i) [0..<min k (length (ids' (index_s s)))])"
    by (simp add: image_image)
  also have "\<dots> = set (take k (ids' (index_s s)))"
    by (simp only: first_ids)
  finally show ?thesis .
qed

lemma buf_all: "length xs = k \<Longrightarrow> map (buf xs) [0..<k] = xs"
  by (simp add: list_eq_iff_nth_eq buf_def)

lemma labels_of_search:
  assumes "index_' w = Some ix" "0 < k" "can_allocate k"
    "index_search L ix 1 q k = Returned (distances, labels)"
  shows "map id' (fst (search can_allocate L w (Some q) k))
           = filter (\<lambda>l. 0 \<le> l) (map (buf labels) [0..<k])"
  using assms by (simp add: search_def filter_map comp_def)

text \<open>
  C5, as the code has it. The stub build returns exactly \<open>min k n\<close> entries, \<open>n\<close> the
  number of stored identifiers, and the empty result right after construction, for
  every index type. The FAISS-backed wrapper returns, in the library's order, one
  entry for each of the \<open>k\<close> buffer positions whose label is not negative, so never
  more than \<open>k\<close>. When the library reports the \<open>min k n\<close> identifiers it found and fills
  the remaining positions with \<open>-1\<close>, the result consists of the reported identifiers
  that are not negative: exactly \<open>min k n\<close> entries if none of them is negative, and
  the empty result for an index without vectors. When the library throws or the
  buffers cannot be allocated, the result is empty.
\<close>

theorem search_result_count:
  "length (search_stub dis s query k) = min k (get_ntotal_stub s)
   \<and> search_stub dis (FAISSWrapper_stub dimension index_type use_gpu gpu_device) query k = []
   \<and> (index_' w = Some ix \<and> 0 < k \<and> can_allocate k
        \<and> index_search L ix 1 q k = Returned (distances, labels) \<longrightarrow>
      map id' (fst (search can_allocate L w (Some q) k))
        = filter (\<lambda>l. 0 \<le> l) (map (buf labels) [0..<k])
      \<and> length (fst (search can_allocate L w (Some q) k)) \<le> k)
   \<and> (index_' w = Some ix \<and> 0 < k \<and> can_allocate k
        \<and> index_search L ix 1 q k
            = Returned (distances, found @ replicate (k - length found) (- 1))
        \<and> length found = min k (index_ntotal L ix) \<longrightarrow>
      map id' (fst (search can_allocate L w (Some q) k)) = filter (\<lambda>l. 0 \<le> l) found
      \<and> ((\<forall>l \<in> set found. 0 \<le> l) \<longrightarrow>
            length (fst (search can_allocate L w (Some q) k)) = min k (get_ntotal L w))
      \<and> (index_ntotal L ix = 0 \<longrightarrow> fst (search can_allocate L w (Some q) k) = []))
   \<and> (index_' w = Some ix \<and> (\<not> can_allocate k \<or> index_search L ix 1 q k = Threw e) \<longrightarrow>
      fst (search can_allocate L w (Some q) k) = [])"
proof (intro conjI impI)
  show "length (search_stub dis s query k) = min k (get_ntotal_stub s)"
    by (rule length_search_stub)
  have "length (search_stub dis (FAISSWrapper_stub dimension index_type use_gpu gpu_device) query k) = 0"
    by (simp add: length_search_stub get_ntotal_stub_def FAISSWrapper_stub_def)
  then show "search_stub dis (FAISSWrapper_stub dimension index_type use_gpu gpu_device) query k = []"
    by simp
next
  assume a: "index_' w = Some ix \<and> 0 < k \<and> can_allocate k
        \<and> index_search L ix 1 q k = Returned (distances, labels)"
  then show ids: "map id' (fst (search can_allocate L w (Some q) k))
        = filter (\<lambda>l. 0 \<le> l) (map (buf labels) [0..<k])"
    by (simp add: labels_of_search)
  have "length (map id' (fst (search can_allocate L w (Some q) k))) \<le> length (map (buf labels) [0..<k])"
    unfolding ids by (rule length_filter_le)
  then show "length (fst (search can_allocate L w (Some q) k)) \<le> k"
    by simp
next
  assume a: "index_' w = Some ix \<and> 0 < k \<and> can_allocate k
        \<and> index_search L ix 1 q k
            = Returned (distances, found @ replicate (k - length found) (- 1))
        \<and> length found = min k (index_ntotal L ix)"
  then have "length (found @ replicate (k - length found) (- 1 :: idx_t)) = k"
    by simp
  then have "map (buf (found @ replicate (k - length found) (- 1))) [0..<k]
               = found @ replicate (k - length found) (- 1)"
    by (rule buf_all)
  with a labels_of_search [of w ix k can_allocate L q distances
      "found @ replicate (k - length found) (- 1)"]
  show ids: "map id' (fst (search can_allocate L w (Some q) k)) = filter (\<lambda>l. 0 \<le> l) found"
    by simp
  {
    assume "\<forall>l \<in> set found. 0 \<le> l"
    then have "filter (\<lambda>l. 0 \<le> l) found = found"
      by (simp add: filter_True)
    with ids have "length (map id' (fst (search can_allocate L w (Some q) k))) = length found"
      by simp
    with a show "length (fst (search can_allocate L w (Some q) k)) = min k (get_ntotal L w)"
      by (simp add: get_ntotal_def)
  }
  {
    assume "index_ntotal L ix = 0"
    with a have "found = []"
      by simp
    with ids have "map id' (fst (search can_allocate L w (Some q) k)) = []"
      by simp
    then show "fst (search can_allocate L w (Some q) k) = []"
      by simp
  }
next
  assume "index_' w = Some ix \<and> (\<not> can_allocate k \<or> index_search L ix 1 q k = Threw e)"
  then show "fst (search can_allocate L w (Some q) k) = []"
    by (auto simp: search_def)
qed

theorem search_result_count_witness:
  "index_search ref_faiss
       \<lparr> ref_ctor = IndexFlatL2 4, ref_trained = True,
         ref_rows = [(1, [0, 0, 0, 0]), (2, [1, 0, 0, 0]), (3, [0, 1, 0, 0])] \<rparr> 1 [0, 0, 0, 0] 5
     = Returned ([0, 1, 1, 0, 0], [1, 2, 3] @ replicate (5 - length [1, 2, 3 :: idx_t]) (- 1))
   \<and> map id' (fst (search (\<lambda>k. True) ref_faiss
        (snd (add_vectors ref_faiss (FAISSWrapper_init ref_faiss False 0 4 ''Flat'' False 0)
           (Some [0, 0, 0, 0,  1, 0, 0, 0,  0, 1, 0, 0]) (Some [1, 2, 3]) 3))
        (Some [0, 0, 0, 0]) 5)) = [1, 2, 3]
   \<and> get_ntotal ref_faiss
        (snd (add_vectors ref_faiss (FAISSWrapper_init ref_faiss False 0 4 ''Flat'' False 0)
           (Some [0, 0, 0, 0,  1, 0, 0, 0,  0, 1, 0, 0]) (Some [1, 2, 3]) 3)) = 3
   \<and> fst (search (\<lambda>k. k < 1000) ref_faiss
        (snd (add_vectors ref_faiss (FAISSWrapper_init ref_faiss False 0 4 ''Flat'' False 0)
           (Some [0, 0, 0, 0,  1, 0, 0, 0,  0, 1, 0, 0]) (Some [1, 2, 3]) 3))
        (Some [0, 0, 0, 0]) 1000) = []"
  using search_result_count
    [where L = ref_faiss and can_allocate = "\<lambda>k. True"
       and w = "snd (add_vectors ref_faiss (FAISSWrapper_init ref_faiss False 0 4 ''Flat'' False 0)
                  (Some [0, 0, 0, 0,  1, 0, 0, 0,  0, 1, 0, 0]) (Some [1, 2, 3]) 3)"
       and ix = "\<lparr> ref_ctor = IndexFlatL2 4, ref_trained = True,
                  ref_rows = [(1, [0, 0, 0, 0]), (2, [1, 0, 0, 0]), (3, [0, 1, 0, 0])] \<rparr>"
       and q = "[0, 0, 0, 0]" and k = 5 and distances = "[0, 1, 1, 0, 0]"
       and labels = "[1, 2, 3, - 1, - 1]" and found = "[1, 2, 3]"]
    search_result_count
    [where L = ref_faiss and can_allocate = "\<lambda>k. k < 1000"
       and w = "snd (add_vectors ref_faiss (FAISSWrapper_init ref_faiss False 0 4 ''Flat'' False 0)
                  (Some [0, 0, 0, 0,  1, 0, 0, 0,  0, 1, 0, 0]) (Some [1, 2, 3]) 3)"
       and ix = "\<lparr> ref_ctor = IndexFlatL2 4, ref_trained = True,
                  ref_rows = [(1, [0, 0, 0, 0]), (2, [1, 0, 0, 0]), (3, [0, 1, 0, 0])] \<rparr>"
       and q = "[0, 0, 0, 0]" and k = 1000]
  by (simp add: ref_simps upt_conv_Cons fvec_L2sqr_def buf_def get_ntotal_def numeral_2_eq_2)

text \<open>
  An \<^verbatim>\<open>"IVFFlat"\<close> wrapper on the library instance \<open>ref_faiss\<close> after one successful
  \<^verbatim>\<open>add_vectors\<close> call with the identifiers \<open>-5\<close>, 0 and 9: it is trained and holds
  three vectors, and a search with \<open>k = 3\<close> returns two entries, the one with the
  negative identifier being skipped like an unfilled position.
\<close>

theorem negative_identifier_is_dropped:
  "fst (add_vectors ref_faiss (FAISSWrapper_init ref_faiss False 0 1 ''IVFFlat'' False 0)
          (Some [0, 1, 2]) (Some [- 5, 0, 9]) 3) = 0
   \<and> is_trained ref_faiss
        (snd (add_vectors ref_faiss (FAISSWrapper_init ref_faiss False 0 1 ''IVFFlat'' False 0)
           (Some [0, 1, 2]) (Some [- 5, 0, 9]) 3))
   \<and> get_ntotal ref_faiss
        (snd (add_vectors ref_faiss (FAISSWrapper_init ref_faiss False 0 1 ''IVFFlat'' False 0)
           (Some [0, 1, 2]) (Some [- 5, 0, 9]) 3)) = 3
   \<and> fst (search (\<lambda>k. True) ref_faiss
        (snd (add_vectors ref_faiss (FAISSWrapper_init ref_faiss False 0 1 ''IVFFlat'' False 0)
           (Some [0, 1, 2]) (Some [- 5, 0, 9]) 3))
        (Some [0]) 3)
     = [\<lparr> id' = 0, distance = 1 \<rparr>, \<lparr> id' = 9, distance = 4 \<rparr>]"
  by (simp add: ref_simps upt_conv_Cons fvec_L2sqr_def buf_def get_ntotal_def)

subsection \<open>The round trip through a blob\<close>

lemma ref_write_rows:
  "ref_write \<lparr> ref_ctor = IndexFlatL2 4, ref_trained = True,
               ref_rows = [(1, [0, 0, 0, 0]), (2, [1, 0, 0, 0]), (3, [0, 1, 0, 0])] \<rparr>
     = Returned [4, 1, 0, 0, 0, 0, 2, 1, 0, 0, 0, 3, 0, 1, 0, 0]"
  by (simp add: ref_write_def is_byte_def to_byte_def)

lemma ref_read_rows_ex:
  "ref_read [4, 1, 0, 0, 0, 0, 2, 1, 0, 0, 0, 3, 0, 1, 0, 0]
     = Returned (Some \<lparr> ref_ctor = IndexFlatL2 4, ref_trained = True,
                        ref_rows = [(1, [0, 0, 0, 0]), (2, [1, 0, 0, 0]), (3, [0, 1, 0, 0])] \<rparr>)"
  by (simp add: ref_read_def)

text \<open>
  C1, as the code has it. In the FAISS-backed wrapper, if the library writes the
  index to a non-empty blob and reads that blob back as an index that answers every
  query as the written one does, then \<^verbatim>\<open>deserialize\<close> of \<^verbatim>\<open>serialize\<close>, into any
  wrapper, succeeds and the restored wrapper returns the same results, in the same
  order, as the original. The stub build does not serialize the index: its
  \<^verbatim>\<open>deserialize\<close> leaves the receiving wrapper as it was, whatever the blob, so only
  a wrapper restored onto itself keeps its results; these are the same set of
  identifiers for every run of the random generator.
\<close>

theorem round_trip_search_equivalent:
  "(index_' w = Some ix \<and> write_index L ix = Returned blob \<and> blob \<noteq> []
      \<and> read_index L blob = Returned (Some ix')
      \<and> (\<forall>q k. index_search L ix' 1 q k = index_search L ix 1 q k) \<longrightarrow>
      fst (deserialize L w2 (serialize L w)) = 0
      \<and> fst (search can_allocate L (snd (deserialize L w2 (serialize L w))) query k)
          = fst (search can_allocate L w query k))
   \<and> deserialize_stub s (serialize_stub s2) = (0, s)
   \<and> set (map id' (search_stub dis (snd (deserialize_stub s (serialize_stub s))) query k))
       = set (map id' (search_stub dis2 s query k))"
  by (auto simp: serialize_def deserialize_def search_def deserialize_stub_def ids_search_stub
           simp del: set_map split: option.splits outcome.splits)

theorem round_trip_search_equivalent_witness:
  "write_index ref_faiss
       \<lparr> ref_ctor = IndexFlatL2 4, ref_trained = True,
         ref_rows = [(1, [0, 0, 0, 0]), (2, [1, 0, 0, 0]), (3, [0, 1, 0, 0])] \<rparr>
     = Returned [4, 1, 0, 0, 0, 0, 2, 1, 0, 0, 0, 3, 0, 1, 0, 0]
   \<and> read_index ref_faiss [4, 1, 0, 0, 0, 0, 2, 1, 0, 0, 0, 3, 0, 1, 0, 0]
     = Returned (Some \<lparr> ref_ctor = IndexFlatL2 4, ref_trained = True,
                        ref_rows = [(1, [0, 0, 0, 0]), (2, [1, 0, 0, 0]), (3, [0, 1, 0, 0])] \<rparr>)
   \<and> fst (search (\<lambda>k. True) ref_faiss
        (snd (deserialize ref_faiss (FAISSWrapper_init ref_faiss False 0 4 ''Flat'' False 0)
           (serialize ref_faiss
              (snd (add_vectors ref_faiss (FAISSWrapper_init ref_faiss False 0 4 ''Flat'' False 0)
                 (Some [0, 0, 0, 0,  1, 0, 0, 0,  0, 1, 0, 0]) (Some [1, 2, 3]) 3)))))
        (Some [0, 0, 0, 0]) 2)
     = fst (search (\<lambda>k. True) ref_faiss
         (snd (add_vectors ref_faiss (FAISSWrapper_init ref_faiss False 0 4 ''Flat'' False 0)
            (Some [0, 0, 0, 0,  1, 0, 0, 0,  0, 1, 0, 0]) (Some [1, 2, 3]) 3))
         (Some [0, 0, 0, 0]) 2)
   \<and> fst (search (\<lambda>k. True) ref_faiss
        (snd (add_vectors ref_faiss (FAISSWrapper_init ref_faiss False 0 4 ''Flat'' False 0)
           (Some [0, 0, 0, 0,  1, 0, 0, 0,  0, 1, 0, 0]) (Some [1, 2, 3]) 3))
        (Some [0, 0, 0, 0]) 2)
     = [\<lparr> id' = 1, distance = 0 \<rparr>, \<lparr> id' = 2, distance = 1 \<rparr>]"
  using round_trip_search_equivalent
    [where L = ref_faiss
       and w = "snd (add_vectors ref_faiss (FAISSWrapper_init ref_faiss False 0 4 ''Flat'' False 0)
                  (Some [0, 0, 0, 0,  1, 0, 0, 0,  0, 1, 0, 0]) (Some [1, 2, 3]) 3)"
       and ix = "\<lparr> ref_ctor = IndexFlatL2 4, ref_trained = True,
                  ref_rows = [(1, [0, 0, 0, 0]), (2, [1, 0, 0, 0]), (3, [0, 1, 0, 0])] \<rparr>"
       and ix' = "\<lparr> ref_ctor = IndexFlatL2 4, ref_trained = True,
                   ref_rows = [(1, [0, 0, 0, 0]), (2, [1, 0, 0, 0]), (3, [0, 1, 0, 0])] \<rparr>"
       and blob = "[4, 1, 0, 0, 0, 0, 2, 1, 0, 0, 0, 3, 0, 1, 0, 0]"
       and ?w2.0 = "FAISSWrapper_init ref_faiss False 0 4 ''Flat'' False 0"
       and query = "Some [0, 0, 0, 0]" and k = 2 and can_allocate = "\<lambda>k. True"]
  by (simp add: ref_simps ref_write_rows ref_read_rows_ex upt_conv_Cons fvec_L2sqr_def buf_def)

text \<open>
  The stub build, restoring into a fresh wrapper: the original holds identifier 7
  and finds it, \<^verbatim>\<open>deserialize\<close> of its serialized form reports success, and the
  restored wrapper finds nothing.
\<close>

theorem stub_round_trip_loses_vectors:
  "add_vectors_stub (FAISSWrapper_stub 4 ''Flat'' False 0) (Some [1, 0, 0, 0]) (Some [7]) 1
     = Some (0, \<lparr> index_s = \<lparr> dimension' = 4, vectors' = [[1, 0, 0, 0]], ids' = [7] \<rparr>,
                  dimension_s = 4, use_gpu_s = False, gpu_device_s = 0,
                  index_type_s = ''Flat'', trained_s = True \<rparr>)
   \<and> map id' (search_stub (\<lambda>i. 1)
        \<lparr> index_s = \<lparr> dimension' = 4, vectors' = [[1, 0, 0, 0]], ids' = [7] \<rparr>,
          dimension_s = 4, use_gpu_s = False, gpu_device_s = 0,
          index_type_s = ''Flat'', trained_s = True \<rparr> (Some [1, 0, 0, 0]) 1) = [7]
   \<and> fst (deserialize_stub (FAISSWrapper_stub 4 ''Flat'' False 0) (serialize_stub
        \<lparr> index_s = \<lparr> dimension' = 4, vectors' = [[1, 0, 0, 0]], ids' = [7] \<rparr>,
          dimension_s = 4, use_gpu_s = False, gpu_device_s = 0,
          index_type_s = ''Flat'', trained_s = True \<rparr>)) = 0
   \<and> map id' (search_stub (\<lambda>i. 1)
        (snd (deserialize_stub (FAISSWrapper_stub 4 ''Flat'' False 0) (serialize_stub
           \<lparr> index_s = \<lparr> dimension' = 4, vectors' = [[1, 0, 0, 0]], ids' = [7] \<rparr>,
             dimension_s = 4, use_gpu_s = False, gpu_device_s = 0,
             index_type_s = ''Flat'', trained_s = True \<rparr>)))
        (Some [1, 0, 0, 0]) 1) = []"
  by (simp add: add_vectors_stub_def add_step_def FAISSWrapper_stub_def search_stub_def
        deserialize_stub_def)

subsection \<open>Order of the results\<close>

lemma stub_distances_in_range:
  assumes "in_distribution dis" "r \<in> set (search_stub dis s query k)"
  shows "1 / 10 \<le> distance r \<and> distance r < 10"
proof -
  from assms(2) obtain i where "distance r = dis i"
    by (auto simp: search_stub_def Let_def)
  with assms(1) show ?thesis
    by (simp add: in_distribution_def)
qed

text \<open>
  C4, the scenario of a Flat index of dimension 4 holding the identifiers 1, 2, 3 with
  the vectors (0,0,0,0), (1,0,0,0), (0,1,0,0), queried with (0,0,0,0) and \<open>k = 2\<close>, run
  on the stub build with a generator that draws 5.0 and then 3.0: the answer is the
  identifiers 2, 1 with the distances 3.0, 5.0, not 1, 2 with 0.0, 1.0. By
  \<open>stub_distances_in_range\<close> no run of the stub returns a distance of 0.0.
\<close>

theorem stub_search_scenario:
  "add_vectors_stub (FAISSWrapper_stub 4 ''Flat'' False 0)
       (Some [0, 0, 0, 0,  1, 0, 0, 0,  0, 1, 0, 0]) (Some [1, 2, 3]) 3
     = Some (0, \<lparr> index_s = \<lparr> dimension' = 4,
                    vectors' = [[0, 0, 0, 0], [1, 0, 0, 0], [0, 1, 0, 0]], ids' = [1, 2, 3] \<rparr>,
                  dimension_s = 4, use_gpu_s = False, gpu_device_s = 0,
                  index_type_s = ''Flat'', trained_s = True \<rparr>)
   \<and> search_stub (\<lambda>i. if i = 0 then 5 else 3)
        \<lparr> index_s = \<lparr> dimension' = 4,
                      vectors' = [[0, 0, 0, 0], [1, 0, 0, 0], [0, 1, 0, 0]], ids' = [1, 2, 3] \<rparr>,
          dimension_s = 4, use_gpu_s = False, gpu_device_s = 0,
          index_type_s = ''Flat'', trained_s = True \<rparr> (Some [0, 0, 0, 0]) 2
     = [\<lparr> id' = 2, distance = 3 \<rparr>, \<lparr> id' = 1, distance = 5 \<rparr>]"
  by (simp add: add_vectors_stub_def add_step_def FAISSWrapper_stub_def search_stub_def
        upt_conv_Cons)

subsection \<open>The text of a stored vector\<close>

lemmas fmt_unfold = put_float_def put_fixed_def put_general_def round_half_even_def pad_left_def
  decimal_exponent_def scale10_def strip_zeros_def show_int_def fixed6_def initial_fmt_def Let_def

lemma pad_numeral: "replicate (numeral n) (c :: char) = c # replicate (numeral n - 1) c"
  by (simp add: numeral_eq_Suc)

lemma floor_numeral_div: "\<lfloor>numeral a / numeral b :: rat\<rfloor> = numeral a div numeral b"
  using floor_divide_of_int_eq [of "numeral a" "numeral b", where ?'a = rat] by simp

text \<open>
  With \<^verbatim>\<open>std::fixed << std::setprecision(6)\<close> in force, whatever the value, the text of
  a component is an optional minus sign, at least one digit, the point and exactly
  six digits.
\<close>

lemma digit_char: "n < 10 \<Longrightarrow> ''0123456789'' ! n \<in> set ''0123456789''"
  by (rule nth_mem) simp

lemma show_nat_digits: "set (show_nat n) \<subseteq> set ''0123456789''"
proof (induction n rule: show_nat.induct)
  case (1 n)
  show ?case
  proof (cases "n < 10")
    case True
    with digit_char [of n] show ?thesis
      by (subst show_nat.simps) simp
  next
    case False
    have "n mod 10 < 10" by simp
    with False 1 digit_char [of "n mod 10"] show ?thesis
      by (subst show_nat.simps) simp
  qed
qed

lemma show_nat_not_empty: "show_nat n \<noteq> []"
  by (subst show_nat.simps) simp

lemma length_show_nat: "n < 10 ^ d \<Longrightarrow> 0 < d \<Longrightarrow> length (show_nat n) \<le> d"
proof (induction n arbitrary: d rule: show_nat.induct)
  case (1 n)
  show ?case
  proof (cases "n < 10")
    case True
    with "1.prems" show ?thesis
      by (subst show_nat.simps) simp
  next
    case False
    with "1.prems" have d: "1 < d"
      by (cases "d = 1") auto
    then obtain d' where d': "d = Suc d'" "0 < d'"
      by (cases d) auto
    with "1.prems" have "n div 10 < 10 ^ d'"
      by (simp add: less_mult_imp_div_less mult.commute)
    with False "1.IH" [of d'] d' have "length (show_nat (n div 10)) \<le> d'"
      by simp
    with False d' show ?thesis
      by (subst show_nat.simps) simp
  qed
qed

lemma length_pad_left: "length s \<le> n \<Longrightarrow> length (pad_left n s) = n"
  by (simp add: pad_left_def)

lemma set_pad_left: "set (pad_left n s) \<subseteq> insert (CHR ''0'') (set s)"
  by (auto simp: pad_left_def)

lemma put_fixed_six_digits:
  "\<exists>ip fp. put_fixed 6 x = (if x < 0 then ''-'' else []) @ ip @ ''.'' @ fp
      \<and> ip \<noteq> [] \<and> set ip \<subseteq> set ''0123456789''
      \<and> length fp = 6 \<and> set fp \<subseteq> set ''0123456789''"
proof -
  define m where "m = round_half_even (\<bar>x\<bar> * 10 ^ 6)"
  define ip where "ip = show_nat (m div 10 ^ 6)"
  define fp where "fp = pad_left 6 (show_nat (m mod 10 ^ 6))"
  have eq: "put_fixed 6 x = (if x < 0 then ''-'' else []) @ ip @ ''.'' @ fp"
    by (simp add: put_fixed_def Let_def m_def ip_def fp_def)
  have "m mod 10 ^ 6 < 10 ^ 6"
    by simp
  then have "length (show_nat (m mod 10 ^ 6)) \<le> 6"
    by (rule length_show_nat) simp
  then have len: "length fp = 6"
    unfolding fp_def by (rule length_pad_left)
  have "set fp \<subseteq> insert (CHR ''0'') (set (show_nat (m mod 10 ^ 6)))"
    unfolding fp_def by (rule set_pad_left)
  also have "\<dots> \<subseteq> set ''0123456789''"
    using show_nat_digits [of "m mod 10 ^ 6"] by auto
  finally have digs: "set fp \<subseteq> set ''0123456789''" .
  from eq len digs show_nat_not_empty [of "m div 10 ^ 6"] show_nat_digits [of "m div 10 ^ 6"]
  show ?thesis
    unfolding ip_def by blast
qed

lemma put_float_fixed6: "put_float (fixed6 f) x = put_fixed 6 x"
  by (simp add: put_float_def fixed6_def)

text \<open>
  C9, on the vector (0.5, 1234567.0) with identifier 7 and table \<^verbatim>\<open>t\<close>.
  \<^verbatim>\<open>insert_vector\<close> and \<^verbatim>\<open>batch_insert_vectors\<close> write every component with six
  fractional digits (as they do for every vector, by \<open>put_fixed_six_digits\<close>).
  \<^verbatim>\<open>store_vectors\<close>, which sets neither \<^verbatim>\<open>std::fixed\<close> nor a precision,
  writes the same vector as \<^verbatim>\<open>[0.5,1.23457e+06]\<close>: no fixed number of fractional digits,
  and only six significant digits of the second component.
\<close>

theorem store_vectors_not_fixed_precision:
  "insert_vector_query ''t'' 7 [1 / 2, 1234567]
     = ''INSERT INTO t (id, embedding) VALUES (7, '[0.500000,1234567.000000]')''
   \<and> batch_insert_vectors_query ''t'' [7] [[1 / 2, 1234567]]
     = Some ''INSERT INTO t (id, embedding) VALUES (7, '[0.500000,1234567.000000]')''
   \<and> store_vectors True (\<lambda>sent query. True) ''t'' [[1 / 2, 1234567]] [7]
     = Returned (True, [''BEGIN'',
                        ''INSERT INTO t (id, embedding) VALUES (7, '[0.5,1.23457e+06]')'',
                        ''COMMIT''])"
proof (intro conjI)
  show "insert_vector_query ''t'' 7 [1 / 2, 1234567]
     = ''INSERT INTO t (id, embedding) VALUES (7, '[0.500000,1234567.000000]')''"
    unfolding insert_vector_query_def put_components.simps fmt_unfold
    by (simp add: show_nat.simps pad_numeral floor_numeral_div)
  show "batch_insert_vectors_query ''t'' [7] [[1 / 2, 1234567]]
     = Some ''INSERT INTO t (id, embedding) VALUES (7, '[0.500000,1234567.000000]')''"
    unfolding batch_insert_vectors_query_def zip.simps list.case batch_rows.simps batch_row_def
      fst_conv snd_conv put_components.simps fmt_unfold
    by (simp add: show_nat.simps pad_numeral floor_numeral_div)
  show "store_vectors True (\<lambda>sent query. True) ''t'' [[1 / 2, 1234567]] [7]
     = Returned (True, [''BEGIN'',
                        ''INSERT INTO t (id, embedding) VALUES (7, '[0.5,1.23457e+06]')'',
                        ''COMMIT''])"
    unfolding store_vectors_def zip.simps list.case store_rows.simps store_vectors_query_def
      put_components.simps fmt_unfold
    by (simp add: show_nat.simps scale_up.simps pad_numeral floor_numeral_div)
qed

end
